theory Spec2Isabelle
  imports Main "HOL-Library.Word" "HOL-Library.Multiset" "HOL-Library.Sublist"
begin

unbundle bit_operations_syntax

section \<open>chezmoimaps: Keys and SortedKeys\<close>

text \<open>
  A Go map has unique keys and no fixed iteration order. It is modelled as the list of
  its entries in the order in which one \<^verbatim>\<open>range\<close> statement visits them; a
  well-formed map has pairwise distinct keys (\<open>wf_gomap\<close>). Two lists with the same
  entries in a different order are the same map visited in a different order.
\<close>

type_synonym ('k, 'v) gomap = "('k \<times> 'v) list"

definition wf_gomap :: "('k, 'v) gomap \<Rightarrow> bool" where
  "wf_gomap m = distinct (map fst m)"

text \<open>
  \<^verbatim>\<open>Keys\<close>: \<^verbatim>\<open>r := make([]K, 0, len(m)); for k := range m { r = append(r, k) }; return r\<close>.
  \<open>Keys_loop\<close> is the loop, with the slice \<open>r\<close> built so far as accumulator.
\<close>

fun Keys_loop :: "'k list \<Rightarrow> ('k, 'v) gomap \<Rightarrow> 'k list" where
  "Keys_loop r [] = r"
| "Keys_loop r ((k, v) # m) = Keys_loop (r @ [k]) m"

definition Keys :: "('k, 'v) gomap \<Rightarrow> 'k list" where
  "Keys m = Keys_loop [] m"

text \<open>
  \<^verbatim>\<open>SortedKeys\<close>: \<^verbatim>\<open>keys := Keys(m); slices.Sort(keys); return keys\<close>.
  \<^verbatim>\<open>slices.Sort\<close> is the Go standard library's ascending sort; on a linearly ordered
  key type (integers, strings) it is HOL's \<open>sort\<close>. Floating-point keys (NaN) are outside
  this model.
\<close>

definition SortedKeys :: "('k::linorder, 'v) gomap \<Rightarrow> 'k list" where
  "SortedKeys m = sort (Keys m)"

section \<open>The add command: data\<close>

type_synonym RelPath = string
type_synonym AbsPath = string

text \<open>
  Modelled from the spec: the type \<^verbatim>\<open>severity\<close> is declared elsewhere in package
  cmd; the functions below use its values \<^verbatim>\<open>severityIgnore\<close> and
  \<^verbatim>\<open>severityError\<close>, and the spec names the third policy severity, "warn".
\<close>

datatype severity = severityIgnore | severityWarning | severityError

text \<open>
  Modelled from the spec: the entry types and the entry type filter of package chezmoi.
  "EntryType: enum {File, Dir, Symlink, Script, Remove}"; the filter is "an include-set
  and an exclude-set of EntryType; an entry is included iff (Include empty OR type in
  Include) AND type not in Exclude".
\<close>

datatype EntryType = File | Dir | Symlink | Script | Remove

record EntryTypeFilter =
  Include :: "EntryType list"
  Exclude :: "EntryType list"

definition included :: "EntryTypeFilter \<Rightarrow> EntryType \<Rightarrow> bool" where
  "included f t =
     ((Include f = [] \<or> List.member (Include f) t) \<and> \<not> List.member (Exclude f) t)"

text \<open>\<^verbatim>\<open>addCmdConfig\<close>, field by field (\<open>filter'\<close> is the field \<^verbatim>\<open>filter\<close>).\<close>

record addCmdConfig =
  Encrypt :: bool
  Secrets :: severity
  TemplateSymlinks :: bool
  autoTemplate :: bool
  create :: bool
  exact :: bool
  filter' :: EntryTypeFilter
  follow :: bool
  prompt :: bool
  quiet :: bool
  recursive :: bool
  template :: bool

text \<open>
  The part of \<^verbatim>\<open>Config\<close> that the add command reads and writes. \<open>cMode\<close> is the
  field \<^verbatim>\<open>Mode\<close>, \<open>configFileAbsPath\<close> the value of \<^verbatim>\<open>c.getConfigFileAbsPath()\<close>
  and \<open>EncryptedSuffix\<close> that of \<^verbatim>\<open>c.encryption.EncryptedSuffix()\<close>. Three logs make
  the effects visible: \<open>stderr\<close> holds the messages written by \<^verbatim>\<open>c.errorf\<close>, oldest
  first; \<open>prompts\<close> holds the prompts shown by \<^verbatim>\<open>c.promptChoice\<close>; \<open>reads\<close> holds
  the paths passed to \<^verbatim>\<open>c.destSystem.ReadFile\<close>.
\<close>

datatype chezmoiMode = chezmoiModeFile | chezmoiModeSymlink

record Config =
  DestDirAbsPath :: AbsPath
  SourceDirAbsPath :: AbsPath
  CacheDirAbsPath :: AbsPath
  WorkingTreeAbsPath :: AbsPath
  sourceDirAbsPath :: AbsPath
  configFileAbsPath :: AbsPath
  EncryptedSuffix :: string
  cMode :: chezmoiMode
  force :: bool
  Add :: addCmdConfig
  stderr :: "string list"
  prompts :: "string list"
  reads :: "AbsPath list"

text \<open>A finding of the secret detector: the two fields the hook prints.\<close>

record finding =
  StartLine :: "64 word"
  Description :: string

text \<open>
  The values of Go's \<^verbatim>\<open>error\<close> that occur: \<^verbatim>\<open>fs.SkipDir\<close>,
  \<^verbatim>\<open>chezmoi.ExitCodeError(n)\<close>, the errors handed on from a collaborator, each with
  its message, and the spec's \<^verbatim>\<open>UnsupportedEntryTypeError\<close>. The result \<^verbatim>\<open>nil\<close> is
  \<open>None\<close>. A function either returns or panics.
\<close>

datatype error =
    SkipDir
  | ExitCodeError int
  | IOError string
  | DetectorError string
  | PromptError string
  | UnsupportedEntryTypeError RelPath

datatype 'a outcome = Returned 'a | Panicked string

text \<open>
  \<^verbatim>\<open>fs.FileMode\<close> is a \<^verbatim>\<open>uint32\<close>; \<^verbatim>\<open>Type()\<close> masks it with \<^verbatim>\<open>ModeType\<close>, the
  union of the type bits \<^verbatim>\<open>ModeDir\<close> (bit 31), \<^verbatim>\<open>ModeSymlink\<close> (27),
  \<^verbatim>\<open>ModeDevice\<close> (26), \<^verbatim>\<open>ModeNamedPipe\<close> (25), \<^verbatim>\<open>ModeSocket\<close> (24),
  \<^verbatim>\<open>ModeCharDevice\<close> (21) and \<^verbatim>\<open>ModeIrregular\<close> (19). A regular file has none.
\<close>

type_synonym FileMode = "32 word"

definition ModeDir :: FileMode where "ModeDir = push_bit 31 1"
definition ModeSymlink :: FileMode where "ModeSymlink = push_bit 27 1"
definition ModeDevice :: FileMode where "ModeDevice = push_bit 26 1"
definition ModeNamedPipe :: FileMode where "ModeNamedPipe = push_bit 25 1"
definition ModeSocket :: FileMode where "ModeSocket = push_bit 24 1"
definition ModeCharDevice :: FileMode where "ModeCharDevice = push_bit 21 1"
definition ModeIrregular :: FileMode where "ModeIrregular = push_bit 19 1"

definition ModeType :: FileMode where
  "ModeType = ModeDir OR ModeSymlink OR ModeNamedPipe OR ModeSocket OR ModeDevice
     OR ModeCharDevice OR ModeIrregular"

definition Type :: "FileMode \<Rightarrow> FileMode" where
  "Type m = m AND ModeType"

record FileInfo =
  Mode :: FileMode

text \<open>
  Modelled from the spec: the source state entries are declared in package chezmoi. The
  spec gives the variants File, Dir, Symlink, Script and Remove, each carrying an
  attribute bundle (the target path, the origin and the content accessor are left out:
  the target path is the key under which an entry is stored). The replace hook reads
  \<^verbatim>\<open>Attr.Encrypted\<close>, \<^verbatim>\<open>Attr.Private\<close> and \<^verbatim>\<open>Attr.Template\<close> of a
  \<^verbatim>\<open>*chezmoi.SourceStateFile\<close>.
\<close>

record Attr =
  Encrypted :: bool
  Private :: bool
  ReadOnly :: bool
  Executable :: bool
  Template :: bool
  Exact :: bool
  Create :: bool

datatype SourceStateEntry =
    SourceStateFile Attr
  | SourceStateDir Attr
  | SourceStateSymlink Attr
  | SourceStateScript Attr
  | SourceStateRemove Attr

text \<open>
  Modelled from the spec: "DestinationObservation: {AbsPath, RelPath, EntryType, Mode}
  produced by the Destination Scanner".
\<close>

record DestinationObservation =
  obsAbsPath :: AbsPath
  obsRelPath :: RelPath
  obsEntryType :: EntryType
  obsMode :: FileMode

text \<open>
  The collaborators that are not part of the add command are parameters of the model,
  collected in one record:
  \<^item> \<open>Join\<close>: \<^verbatim>\<open>AbsPath.Join\<close>;
  \<^item> \<open>ReadFile\<close>: \<^verbatim>\<open>c.destSystem.ReadFile\<close>, the content or the message of an I/O error;
  \<^item> \<open>getGitleaksDetector\<close>: the detector's \<^verbatim>\<open>DetectBytes\<close>, or the message of the
    error met when building it;
  \<^item> \<open>answers\<close>: what the \<open>n\<close>-th call of \<^verbatim>\<open>c.promptChoice\<close> in this run returns
    (counting from 0): the user's choice, or the message of an error;
  \<^item> \<open>englishListWithNoun\<close>: the formatter of the list of removed attributes;
  \<^item> \<open>destAbsPathInfos\<close>: \<^verbatim>\<open>c.destAbsPathInfos\<close> applied to the source state, the
    arguments and the options \<^verbatim>\<open>follow\<close> and \<^verbatim>\<open>recursive\<close>: the observations in
    processing order, or the message of an error;
  \<^item> \<open>persistentStateFile\<close>: \<^verbatim>\<open>c.persistentStateFile()\<close>;
  \<^item> \<open>buildEntry\<close>: the entry that capturing an observation builds, given the entry
    already stored at its target path: reading the content or the link target,
    computing the attributes and encrypting are opaque; the message of an I/O error
    otherwise.
\<close>

record world =
  Join :: "AbsPath \<Rightarrow> RelPath \<Rightarrow> AbsPath"
  ReadFile :: "AbsPath \<Rightarrow> string + string"
  getGitleaksDetector :: "string + (string \<Rightarrow> finding list)"
  answers :: "nat \<Rightarrow> string + string"
  englishListWithNoun :: "string list \<Rightarrow> string \<Rightarrow> string \<Rightarrow> string"
  destAbsPathInfos ::
    "(RelPath \<rightharpoonup> SourceStateEntry) \<Rightarrow> string list \<Rightarrow> bool \<Rightarrow> bool
      \<Rightarrow> string + DestinationObservation list"
  persistentStateFile :: "string + AbsPath"
  buildEntry :: "DestinationObservation \<Rightarrow> SourceStateEntry option \<Rightarrow> string + SourceStateEntry"

section \<open>The add command: hooks\<close>

text \<open>\<^verbatim>\<open>c.errorf\<close> writes one formatted message to the error stream.\<close>

definition errorf :: "string \<Rightarrow> Config \<Rightarrow> Config" where
  "errorf msg c = c\<lparr>stderr := stderr c @ [msg]\<rparr>"

text \<open>
  \<^verbatim>\<open>c.promptChoice(prompt, choicesYesNoAllQuit)\<close> shows the prompt and returns the
  user's choice or an error: the next answer of the world.
\<close>

definition promptChoice :: "world \<Rightarrow> string \<Rightarrow> Config \<Rightarrow> (string + string) \<times> Config" where
  "promptChoice w p c = (answers w (length (prompts c)), c\<lparr>prompts := prompts c @ [p]\<rparr>)"

text \<open>The verb \<^verbatim>\<open>%d\<close> of a signed integer.\<close>

fun fmt_nat :: "nat \<Rightarrow> string" where
  "fmt_nat n =
     (if n < 10 then [''0123456789'' ! n]
      else fmt_nat (n div 10) @ [''0123456789'' ! (n mod 10)])"

declare fmt_nat.simps [simp del]

definition fmt_d :: "int \<Rightarrow> string" where
  "fmt_d i = (if i < 0 then ''-'' @ fmt_nat (nat (- i)) else fmt_nat (nat i))"

text \<open>\<^verbatim>\<open>defaultOnIgnoreFunc\<close>.\<close>

definition defaultOnIgnoreFunc :: "RelPath \<Rightarrow> Config \<Rightarrow> Config" where
  "defaultOnIgnoreFunc targetRelPath c =
     (if \<not> quiet (Add c)
      then errorf (''warning: ignoring '' @ targetRelPath @ [CHR 0x0A]) c
      else c)"

text \<open>
  \<^verbatim>\<open>defaultPreAddFunc\<close>. \<open>report_findings\<close> is the loop over the findings and
  \<open>finding_message\<close> the line it prints for one of them.
  \<open>preAdd_prompt\<close> is the second half of the function, from the test of
  \<^verbatim>\<open>c.Add.prompt\<close> on; every case of the \<^verbatim>\<open>switch\<close> inside its \<^verbatim>\<open>for\<close>
  returns or panics, so the body of that loop runs once.
\<close>

definition finding_message :: "AbsPath \<Rightarrow> finding \<Rightarrow> string" where
  "finding_message absPath f =
     absPath @ '':'' @ fmt_d (sint (StartLine f + 1)) @ '': '' @ Description f @ [CHR 0x0A]"

fun report_findings :: "AbsPath \<Rightarrow> finding list \<Rightarrow> Config \<Rightarrow> Config" where
  "report_findings absPath [] c = c"
| "report_findings absPath (f # fs) c =
     report_findings absPath fs (errorf (finding_message absPath f) c)"

definition preAdd_prompt ::
    "world \<Rightarrow> RelPath \<Rightarrow> Config \<Rightarrow> error option outcome \<times> Config" where
  "preAdd_prompt w targetRelPath c =
     (if \<not> prompt (Add c) then (Returned None, c)
      else
        (case promptChoice w (''add '' @ Join w (SourceDirAbsPath c) targetRelPath) c of
           (Inl err, c') \<Rightarrow> (Returned (Some (PromptError err)), c')
         | (Inr choice, c') \<Rightarrow>
             if choice = ''all'' then (Returned None, c'\<lparr>Add := (Add c')\<lparr>prompt := False\<rparr>\<rparr>)
             else if choice = ''no'' then (Returned (Some SkipDir), c')
             else if choice = ''quit'' then (Returned (Some (ExitCodeError 0)), c')
             else if choice = ''yes'' then (Returned None, c')
             else (Panicked (choice @ '': unexpected choice''), c')))"

definition defaultPreAddFunc ::
    "world \<Rightarrow> RelPath \<Rightarrow> FileInfo \<Rightarrow> Config \<Rightarrow> error option outcome \<times> Config" where
  "defaultPreAddFunc w targetRelPath fileInfo c =
     (if Secrets (Add c) \<noteq> severityIgnore \<and> Type (Mode fileInfo) = 0 \<and> \<not> Encrypt (Add c)
      then
        (let absPath = Join w (DestDirAbsPath c) targetRelPath;
             c1 = c\<lparr>reads := reads c @ [absPath]\<rparr>
         in case ReadFile w absPath of
              Inl err \<Rightarrow> (Returned (Some (IOError err)), c1)
            | Inr content \<Rightarrow>
                (case getGitleaksDetector w of
                   Inl err \<Rightarrow> (Returned (Some (DetectorError err)), c1)
                 | Inr DetectBytes \<Rightarrow>
                     (let findings = DetectBytes content;
                          c2 = report_findings absPath findings c1
                      in if \<not> force c2 \<and> Secrets (Add c2) = severityError \<and> length findings > 0
                         then (Returned (Some (ExitCodeError 1)), c2)
                         else preAdd_prompt w targetRelPath c2)))
      else preAdd_prompt w targetRelPath c)"

text \<open>
  \<^verbatim>\<open>defaultReplaceFunc\<close>. \<open>removedAttributes\<close> is the slice built by the three
  \<^verbatim>\<open>if\<close> statements; as above, the body of the \<^verbatim>\<open>for\<close> runs once.
\<close>

definition removedAttributes :: "Attr \<Rightarrow> Attr \<Rightarrow> string list" where
  "removedAttributes newAttr oldAttr =
     (if \<not> Encrypted newAttr \<and> Encrypted oldAttr then [''encrypted''] else [])
     @ (if \<not> Private newAttr \<and> Private oldAttr then [''private''] else [])
     @ (if \<not> Template newAttr \<and> Template oldAttr then [''template''] else [])"

definition replace_prompt ::
    "world \<Rightarrow> RelPath \<Rightarrow> string list \<Rightarrow> Config \<Rightarrow> error option outcome \<times> Config" where
  "replace_prompt w targetRelPath removed c =
     (case promptChoice w
             (''adding '' @ targetRelPath @ '' would remove ''
                @ englishListWithNoun w removed ''attribute'' '''' @ '', continue'') c of
        (Inl err, c') \<Rightarrow> (Returned (Some (PromptError err)), c')
      | (Inr choice, c') \<Rightarrow>
          if choice = ''all'' then (Returned None, c'\<lparr>force := True\<rparr>)
          else if choice = ''no'' then (Returned (Some SkipDir), c')
          else if choice = ''quit'' then (Returned (Some (ExitCodeError 0)), c')
          else if choice = ''yes'' then (Returned None, c')
          else (Panicked (choice @ '': unexpected choice''), c'))"

text \<open>The type assertion \<^verbatim>\<open>e.(*chezmoi.SourceStateFile)\<close>: the file and \<^verbatim>\<open>ok\<close>.\<close>

fun asSourceStateFile :: "SourceStateEntry \<Rightarrow> Attr option" where
  "asSourceStateFile (SourceStateFile a) = Some a"
| "asSourceStateFile e = None"

definition defaultReplaceFunc ::
    "world \<Rightarrow> RelPath \<Rightarrow> SourceStateEntry \<Rightarrow> SourceStateEntry \<Rightarrow> Config
      \<Rightarrow> error option outcome \<times> Config" where
  "defaultReplaceFunc w targetRelPath newSourceStateEntry oldSourceStateEntry c =
     (if force c then (Returned None, c)
      else
        (case (asSourceStateFile newSourceStateEntry, asSourceStateFile oldSourceStateEntry) of
           (Some newFile, Some oldFile) \<Rightarrow>
             if length (removedAttributes newFile oldFile) = 0 then (Returned None, c)
             else replace_prompt w targetRelPath (removedAttributes newFile oldFile) c
         | _ \<Rightarrow> (Returned None, c)))"

text \<open>
  The capture algorithm lives in package chezmoi and reaches the configuration of the
  add command through the three hooks only (\<^verbatim>\<open>force\<close> and \<^verbatim>\<open>Add.prompt\<close> are
  unexported fields of package cmd). The configurations that the rest of a run can
  reach from \<open>c\<close> are therefore those reached by further hook calls, whatever their
  arguments and results: \<open>after_calls w calls c\<close>.
\<close>

datatype hook_call =
    CallOnIgnore RelPath
  | CallPreAdd RelPath FileInfo
  | CallReplace RelPath SourceStateEntry SourceStateEntry

fun after_call :: "world \<Rightarrow> hook_call \<Rightarrow> Config \<Rightarrow> Config" where
  "after_call w (CallOnIgnore p) c = defaultOnIgnoreFunc p c"
| "after_call w (CallPreAdd p fileInfo) c = snd (defaultPreAddFunc w p fileInfo c)"
| "after_call w (CallReplace p new old) c = snd (defaultReplaceFunc w p new old c)"

fun after_calls :: "world \<Rightarrow> hook_call list \<Rightarrow> Config \<Rightarrow> Config" where
  "after_calls w [] c = c"
| "after_calls w (x # xs) c = after_calls w xs (after_call w x c)"

text \<open>
  \<open>answered w c c' choice\<close>: some prompt shown between the configurations \<open>c\<close> and
  \<open>c'\<close> of a run was answered by \<open>choice\<close>.
\<close>

definition answered :: "world \<Rightarrow> Config \<Rightarrow> Config \<Rightarrow> string \<Rightarrow> bool" where
  "answered w c c' choice =
     list_ex (\<lambda>k. answers w k = Inr choice) [length (prompts c) ..< length (prompts c')]"

section \<open>The capture run\<close>

text \<open>
  \<^verbatim>\<open>chezmoi.AddOptions\<close> as \<^verbatim>\<open>runAddCmd\<close> fills it (the fields that share a name
  with a field of another record carry the prefix \<open>opt\<close>). The three hooks are
  functions on the configuration they are bound to.
\<close>

record AddOptions =
  optAutoTemplate :: bool
  optCreate :: bool
  optEncrypt :: bool
  optEncryptedSuffix :: string
  optExact :: bool
  optFilter :: EntryTypeFilter
  OnIgnoreFunc :: "RelPath \<Rightarrow> Config \<Rightarrow> Config"
  PreAddFunc :: "RelPath \<Rightarrow> FileInfo \<Rightarrow> Config \<Rightarrow> error option outcome \<times> Config"
  ProtectedAbsPaths :: "AbsPath list"
  ReplaceFunc ::
    "RelPath \<Rightarrow> SourceStateEntry \<Rightarrow> SourceStateEntry \<Rightarrow> Config \<Rightarrow> error option outcome \<times> Config"
  optTemplate :: bool
  optTemplateSymlinks :: bool

text \<open>
  The state of a run: the configuration the hooks are bound to, the source state
  ("mapping from RelPath to SourceStateEntry") and the log of the entries written into
  the source tree, oldest first.
\<close>

record AddState =
  cfg :: Config
  entries :: "RelPath \<rightharpoonup> SourceStateEntry"
  written :: "(RelPath \<times> SourceStateEntry) list"

text \<open>
  The method \<^verbatim>\<open>SourceState.Add\<close> of package chezmoi, which \<^verbatim>\<open>runAddCmd\<close> calls, is
  the capture algorithm of the spec (section 4.4), "applied per observation":
  \<^enum> "Reject if RelPath resolves to a ProtectedPath or its descendant": such per-entry
    conditions "are reported via a side-effecting ignore callback and processing
    continues" (the option that makes them fatal is not modelled);
  \<^enum> "Apply Filter; if excluded, invoke OnIgnoreFunc(path) and continue to next
    observation";
  \<^enum> "Look up any existing SourceStateEntry at this target path";
  \<^enum> "Dispatch by destination EntryType": for a regular file "invoke PreCaptureFunc; on
    Skip, ignore this entry (no error); on Abort, return that error/termination signal
    immediately, aborting all remaining observations", otherwise build the entry;
    "Anything else: fail with UnsupportedEntryTypeError";
  \<^enum> "If an entry already exists at the target path and its encoded attributes would
    change in a way that drops Encrypted/Private/Template, invoke ReplaceFunc; Skip
    leaves the old entry untouched and continues; Abort stops the whole run";
  \<^enum> "write the entry into the source tree".
  Step 7, the record in the persistent state store, "is an optimization, not a
  correctness requirement of capture itself" and is left out. A hook's result
  \<^verbatim>\<open>nil\<close> is Proceed, \<^verbatim>\<open>fs.SkipDir\<close> is Skip, any other error is Abort with that
  error. "Already-written entries are not rolled back." The definitions from here to
  \<open>Capture\<close> are this algorithm.
\<close>

text \<open>
  Modelled from the spec: step 1, "RelPath resolves to a ProtectedPath or its
  descendant", on slash-separated absolute paths.
\<close>

definition isProtected :: "AbsPath list \<Rightarrow> AbsPath \<Rightarrow> bool" where
  "isProtected ps a = list_ex (\<lambda>p. a = p \<or> prefix (p @ ''/'') a) ps"

text \<open>
  Modelled from the spec: "each variant carries" an attribute bundle.
\<close>

fun entryAttr :: "SourceStateEntry \<Rightarrow> Attr" where
  "entryAttr (SourceStateFile a) = a"
| "entryAttr (SourceStateDir a) = a"
| "entryAttr (SourceStateSymlink a) = a"
| "entryAttr (SourceStateScript a) = a"
| "entryAttr (SourceStateRemove a) = a"

text \<open>
  Modelled from the spec: step 5, "adding the new entry would drop the Encrypted,
  Private, or Template attribute currently set on the old entry".
\<close>

definition dropsAttribute :: "SourceStateEntry \<Rightarrow> SourceStateEntry \<Rightarrow> bool" where
  "dropsAttribute new old =
     ((Encrypted (entryAttr old) \<and> \<not> Encrypted (entryAttr new))
      \<or> (Private (entryAttr old) \<and> \<not> Private (entryAttr new))
      \<or> (Template (entryAttr old) \<and> \<not> Template (entryAttr new)))"

text \<open>
  Modelled from the spec: step 6, "write the entry into the source tree"; the source
  state then maps the target path to the entry.
\<close>

definition writeEntry :: "RelPath \<Rightarrow> SourceStateEntry \<Rightarrow> AddState \<Rightarrow> AddState" where
  "writeEntry p e st =
     st\<lparr>entries := (entries st)(p \<mapsto> e), written := written st @ [(p, e)]\<rparr>"

text \<open>
  Modelled from the spec: steps 5 and 6, for the entry built in step 4: "invoke
  ReplaceFunc; Skip leaves the old entry untouched and continues; Abort stops the whole
  run".
\<close>

definition replaceAndWrite ::
    "AddOptions \<Rightarrow> RelPath \<Rightarrow> SourceStateEntry \<Rightarrow> AddState \<Rightarrow> error option outcome \<times> AddState" where
  "replaceAndWrite opts p new st =
     (case entries st p of
        None \<Rightarrow> (Returned None, writeEntry p new st)
      | Some old \<Rightarrow>
          if dropsAttribute new old
          then
            (case ReplaceFunc opts p new old (cfg st) of
               (r, c') \<Rightarrow>
                 if r = Returned None then (Returned None, writeEntry p new (st\<lparr>cfg := c'\<rparr>))
                 else if r = Returned (Some SkipDir) then (Returned None, st\<lparr>cfg := c'\<rparr>)
                 else (r, st\<lparr>cfg := c'\<rparr>))
          else (Returned None, writeEntry p new st))"

text \<open>
  Modelled from the spec: the end of step 4, building the entry (a failure to read is
  an I/O error, "fatal to the whole run"), then steps 5 and 6.
\<close>

definition buildAndWrite ::
    "world \<Rightarrow> AddOptions \<Rightarrow> DestinationObservation \<Rightarrow> AddState
      \<Rightarrow> error option outcome \<times> AddState" where
  "buildAndWrite w opts obs st =
     (case buildEntry w obs (entries st (obsRelPath obs)) of
        Inl err \<Rightarrow> (Returned (Some (IOError err)), st)
      | Inr new \<Rightarrow> replaceAndWrite opts (obsRelPath obs) new st)"

text \<open>
  Modelled from the spec: steps 1 to 6 for one observation. The result
  \<open>Returned None\<close> lets the run go on: the entry was written, ignored or skipped.
\<close>

definition captureOne ::
    "world \<Rightarrow> AddOptions \<Rightarrow> DestinationObservation \<Rightarrow> AddState
      \<Rightarrow> error option outcome \<times> AddState" where
  "captureOne w opts obs st =
     (if isProtected (ProtectedAbsPaths opts) (obsAbsPath obs)
      then (Returned None, st\<lparr>cfg := OnIgnoreFunc opts (obsRelPath obs) (cfg st)\<rparr>)
      else if \<not> included (optFilter opts) (obsEntryType obs)
      then (Returned None, st\<lparr>cfg := OnIgnoreFunc opts (obsRelPath obs) (cfg st)\<rparr>)
      else
        (case obsEntryType obs of
           Dir \<Rightarrow> buildAndWrite w opts obs st
         | File \<Rightarrow>
             (case PreAddFunc opts (obsRelPath obs) \<lparr>Mode = obsMode obs\<rparr> (cfg st) of
                (r, c') \<Rightarrow>
                  if r = Returned None then buildAndWrite w opts obs (st\<lparr>cfg := c'\<rparr>)
                  else if r = Returned (Some SkipDir) then (Returned None, st\<lparr>cfg := c'\<rparr>)
                  else (r, st\<lparr>cfg := c'\<rparr>))
         | Symlink \<Rightarrow> buildAndWrite w opts obs st
         | Script \<Rightarrow> (Returned (Some (UnsupportedEntryTypeError (obsRelPath obs))), st)
         | Remove \<Rightarrow> (Returned (Some (UnsupportedEntryTypeError (obsRelPath obs))), st)))"

text \<open>
  Modelled from the spec: the capture run, \<^verbatim>\<open>SourceState.Add\<close>, over the observations
  in their order. "Termination is whole-batch: a fatal Abort from any hook stops
  processing of all subsequent observations."
\<close>

fun Capture ::
    "world \<Rightarrow> AddOptions \<Rightarrow> DestinationObservation list \<Rightarrow> AddState
      \<Rightarrow> error option outcome \<times> AddState" where
  "Capture w opts [] st = (Returned None, st)"
| "Capture w opts (obs # rest) st =
     (case captureOne w opts obs st of
        (r, st') \<Rightarrow> if r = Returned None then Capture w opts rest st' else (r, st'))"

text \<open>
  \<^verbatim>\<open>runAddCmd\<close>: the observations, the persistent state file, then the capture with the
  default hooks. The run starts from the configuration \<open>c\<close> and the source state
  \<open>sourceState\<close>, with nothing written yet.
\<close>

definition addOptions :: "world \<Rightarrow> Config \<Rightarrow> AbsPath \<Rightarrow> AddOptions" where
  "addOptions w c persistentStateFileAbsPath =
     \<lparr>optAutoTemplate = autoTemplate (Add c),
      optCreate = create (Add c),
      optEncrypt = Encrypt (Add c),
      optEncryptedSuffix = EncryptedSuffix c,
      optExact = exact (Add c),
      optFilter = filter' (Add c),
      OnIgnoreFunc = defaultOnIgnoreFunc,
      PreAddFunc = defaultPreAddFunc w,
      ProtectedAbsPaths =
        [CacheDirAbsPath c, WorkingTreeAbsPath c, configFileAbsPath c,
         persistentStateFileAbsPath, sourceDirAbsPath c],
      ReplaceFunc = defaultReplaceFunc w,
      optTemplate = template (Add c),
      optTemplateSymlinks = TemplateSymlinks (Add c)\<rparr>"

definition runAddCmd ::
    "world \<Rightarrow> Config \<Rightarrow> string list \<Rightarrow> (RelPath \<rightharpoonup> SourceStateEntry)
      \<Rightarrow> error option outcome \<times> AddState" where
  "runAddCmd w c args sourceState =
     (let st = \<lparr>cfg = c, entries = sourceState, written = []\<rparr>
      in case destAbsPathInfos w sourceState args
                (cMode c = chezmoiModeSymlink \<or> follow (Add c)) (recursive (Add c)) of
           Inl err \<Rightarrow> (Returned (Some (IOError err)), st)
         | Inr destAbsPathInfos' \<Rightarrow>
             (case persistentStateFile w of
                Inl err \<Rightarrow> (Returned (Some (IOError err)), st)
              | Inr persistentStateFileAbsPath \<Rightarrow>
                  Capture w (addOptions w c persistentStateFileAbsPath) destAbsPathInfos' st))"

text \<open>
  Modelled from the spec: the exit status that the caller of the command reports. "The
  caller can exit with a success code despite early termination": the termination
  signal \<^verbatim>\<open>ExitCodeError(n)\<close> carries the exit status \<open>n\<close>; a run without error
  exits with 0, any other error is a failure (1), and a panic ends a Go process with
  status 2.
\<close>

fun exitStatus :: "error option outcome \<Rightarrow> int" where
  "exitStatus (Returned None) = 0"
| "exitStatus (Returned (Some (ExitCodeError n))) = n"
| "exitStatus (Returned (Some e)) = 1"
| "exitStatus (Panicked m) = 2"

section \<open>A concrete run\<close>

text \<open>
  A home directory with two regular files, \<^verbatim>\<open>notes.txt\<close> (mode 0644) and
  \<^verbatim>\<open>.netrc\<close> (mode 0600), in which the detector finds a secret; the user's answers
  are a parameter.
\<close>

definition exampleAttr :: Attr where
  "exampleAttr = \<lparr>Encrypted = False, Private = False, ReadOnly = False, Executable = False,
     Template = False, Exact = False, Create = False\<rparr>"

definition exampleConfig :: Config where
  "exampleConfig =
     \<lparr>DestDirAbsPath = ''/home/u'',
      SourceDirAbsPath = ''/home/u/.local/share/chezmoi'',
      CacheDirAbsPath = ''/home/u/.cache/chezmoi'',
      WorkingTreeAbsPath = ''/home/u/.local/share/chezmoi'',
      sourceDirAbsPath = ''/home/u/.local/share/chezmoi'',
      configFileAbsPath = ''/home/u/.config/chezmoi/chezmoi.toml'',
      EncryptedSuffix = ''.age'',
      cMode = chezmoiModeFile,
      force = False,
      Add = \<lparr>Encrypt = False, Secrets = severityError, TemplateSymlinks = False,
             autoTemplate = False, create = False, exact = False,
             filter' = \<lparr>Include = [], Exclude = []\<rparr>, follow = False, prompt = True,
             quiet = False, recursive = False, template = False\<rparr>,
      stderr = [], prompts = [], reads = []\<rparr>"

definition exampleObservations :: "DestinationObservation list" where
  "exampleObservations =
     [\<lparr>obsAbsPath = ''/home/u/notes.txt'', obsRelPath = ''notes.txt'', obsEntryType = File,
       obsMode = 0x1A4\<rparr>,
      \<lparr>obsAbsPath = ''/home/u/.netrc'', obsRelPath = ''.netrc'', obsEntryType = File,
       obsMode = 0x180\<rparr>]"

definition exampleWorld :: "(nat \<Rightarrow> string + string) \<Rightarrow> world" where
  "exampleWorld ans =
     \<lparr>Join = (\<lambda>a r. a @ ''/'' @ r),
      ReadFile = (\<lambda>p. if p = ''/home/u/.netrc'' then Inr ''password hunter2''
                      else if p = ''/home/u/notes.txt'' then Inr ''hello''
                      else Inl ''no such file''),
      getGitleaksDetector =
        Inr (\<lambda>content. if content = ''password hunter2''
                        then [\<lparr>StartLine = 0, Description = ''password''\<rparr>] else []),
      answers = ans,
      englishListWithNoun = (\<lambda>ss singular plural. concat ss @ '' '' @ singular),
      destAbsPathInfos = (\<lambda>sourceState args follow recursive. Inr exampleObservations),
      persistentStateFile = Inr ''/home/u/.config/chezmoi/chezmoistate.boltdb'',
      buildEntry = (\<lambda>obs old. Inr (SourceStateFile exampleAttr))\<rparr>"


text \<open>
  The user's answers as a list: the \<open>n\<close>-th prompt gets the \<open>n\<close>-th answer, and the
  input ends after the last one.
\<close>

definition exampleAnswers :: "string list \<Rightarrow> nat \<Rightarrow> string + string" where
  "exampleAnswers as n = (if n < length as then Inr (as ! n) else Inl ''EOF'')"

text \<open>The state at the start of a run in which \<^verbatim>\<open>notes.txt\<close> is already a template.\<close>

definition exampleState :: AddState where
  "exampleState =
     \<lparr>cfg = exampleConfig,
      entries = [''notes.txt'' \<mapsto> SourceStateFile (exampleAttr\<lparr>Template := True\<rparr>)],
      written = []\<rparr>"

section \<open>SortedKeys\<close>

lemma Keys_loop_eq: "Keys_loop r m = r @ map fst m"
  by (induction r m rule: Keys_loop.induct) auto

lemma Keys_eq: "Keys m = map fst m"
  by (simp add: Keys_def Keys_loop_eq)

text \<open>
  C8: for every map, \<open>SortedKeys\<close> returns a permutation of the keys of the map, in
  ascending order (strictly, the keys being distinct); so two maps with the same set of
  keys, whatever the order in which each is visited, give the same slice.
\<close>

theorem SortedKeys_sorted_permutation:
  assumes "wf_gomap m" and "wf_gomap m'" and "set (map fst m) = set (map fst m')"
  shows "mset (SortedKeys m) = mset (map fst m) \<and> sorted (SortedKeys m)
         \<and> distinct (SortedKeys m) \<and> SortedKeys m = SortedKeys m'"
proof -
  have perm: "mset (SortedKeys m) = mset (map fst m)"
    by (simp add: SortedKeys_def Keys_eq)
  have srt: "sorted (SortedKeys m)"
    by (simp add: SortedKeys_def)
  have dist: "distinct (SortedKeys m)"
    using assms(1) by (simp add: SortedKeys_def Keys_eq wf_gomap_def)
  have "mset (map fst m) = mset (map fst m')"
    using assms unfolding wf_gomap_def by (metis set_eq_iff_mset_eq_distinct)
  then have "sort (map fst m) = sort (map fst m')"
    by (simp add: properties_for_sort)
  then have "SortedKeys m = SortedKeys m'"
    by (simp add: SortedKeys_def Keys_eq)
  with perm srt dist show ?thesis by simp
qed

theorem SortedKeys_sorted_permutation_witness:
  "wf_gomap [(3::int, ''c''), (1, ''a''), (2, ''b'')]
   \<and> wf_gomap [(2::int, ''b''), (3, ''c''), (1, ''a'')]
   \<and> SortedKeys [(3::int, ''c''), (1, ''a''), (2, ''b'')] = [1, 2, 3]
   \<and> SortedKeys [(2::int, ''b''), (3, ''c''), (1, ''a'')] = [1, 2, 3]"
  using SortedKeys_sorted_permutation
    [of "[(3::int, ''c''), (1, ''a''), (2, ''b'')]" "[(2::int, ''b''), (3, ''c''), (1, ''a'')]"]
  by (simp add: wf_gomap_def SortedKeys_def Keys_def)

section \<open>The ignore callback\<close>

text \<open>
  C10, as the code has it: the ignore callback writes exactly one warning naming the
  path when \<^verbatim>\<open>quiet\<close> is not set, and leaves the configuration and its error stream
  untouched when it is set.
\<close>

theorem defaultOnIgnoreFunc_warns_unless_quiet:
  "(\<not> quiet (Add c) \<longrightarrow>
      stderr (defaultOnIgnoreFunc p c) = stderr c @ [''warning: ignoring '' @ p @ [CHR 0x0A]])
   \<and> (quiet (Add c) \<longrightarrow> defaultOnIgnoreFunc p c = c)"
  by (simp add: defaultOnIgnoreFunc_def errorf_def)

theorem defaultOnIgnoreFunc_warns_unless_quiet_witness:
  "\<not> quiet (Add exampleConfig)
   \<and> stderr (defaultOnIgnoreFunc ''.cache'' exampleConfig) = [''warning: ignoring .cache'' @ [CHR 0x0A]]
   \<and> quiet (Add (exampleConfig\<lparr>Add := (Add exampleConfig)\<lparr>quiet := True\<rparr>\<rparr>))
   \<and> defaultOnIgnoreFunc ''.cache'' (exampleConfig\<lparr>Add := (Add exampleConfig)\<lparr>quiet := True\<rparr>\<rparr>)
       = exampleConfig\<lparr>Add := (Add exampleConfig)\<lparr>quiet := True\<rparr>\<rparr>"
  using defaultOnIgnoreFunc_warns_unless_quiet [of exampleConfig "''.cache''"]
    defaultOnIgnoreFunc_warns_unless_quiet
      [of "exampleConfig\<lparr>Add := (Add exampleConfig)\<lparr>quiet := True\<rparr>\<rparr>" "''.cache''"]
  by (simp add: exampleConfig_def)

text \<open>
  C10, as the claim states it, fails: with \<^verbatim>\<open>quiet\<close> set, the callback is called for the
  ignored path \<^verbatim>\<open>.cache\<close> and the error stream stays empty.
\<close>

theorem defaultOnIgnoreFunc_quiet_counterexample:
  "stderr (defaultOnIgnoreFunc ''.cache'' (exampleConfig\<lparr>Add := (Add exampleConfig)\<lparr>quiet := True\<rparr>\<rparr>))
     = []
   \<and> stderr (defaultOnIgnoreFunc ''.cache'' (exampleConfig\<lparr>Add := (Add exampleConfig)\<lparr>quiet := True\<rparr>\<rparr>))
     \<noteq> stderr (exampleConfig\<lparr>Add := (Add exampleConfig)\<lparr>quiet := True\<rparr>\<rparr>)
         @ [''warning: ignoring .cache'' @ [CHR 0x0A]]"
  by (simp add: defaultOnIgnoreFunc_def exampleConfig_def)

section \<open>The hooks, step by step\<close>

lemma removedAttributes_empty:
  "(length (removedAttributes na oa) = 0) =
   (\<not> (Encrypted oa \<and> \<not> Encrypted na \<or> Private oa \<and> \<not> Private na \<or> Template oa \<and> \<not> Template na))"
  by (auto simp: removedAttributes_def)

lemma replace_prompt_prompts:
  "prompts (snd (replace_prompt w p rem c)) = prompts c @ [''adding '' @ p @ '' would remove ''
                @ englishListWithNoun w rem ''attribute'' '''' @ '', continue'']"
  by (simp add: replace_prompt_def promptChoice_def split: sum.splits)

lemma asSourceStateFile_Some: "(asSourceStateFile e = Some a) = (e = SourceStateFile a)"
  by (cases e) auto

lemma report_findings_fields:
  "force (report_findings a fs c) = force c \<and> Add (report_findings a fs c) = Add c
   \<and> prompts (report_findings a fs c) = prompts c \<and> reads (report_findings a fs c) = reads c
   \<and> SourceDirAbsPath (report_findings a fs c) = SourceDirAbsPath c
   \<and> DestDirAbsPath (report_findings a fs c) = DestDirAbsPath c"
  by (induction a fs c rule: report_findings.induct) (simp_all add: errorf_def)

lemma report_findings_stderr:
  "stderr (report_findings a fs c) = stderr c @ map (finding_message a) fs"
  by (induction a fs c rule: report_findings.induct) (simp_all add: errorf_def)

lemma preAdd_prompt_off: "\<not> prompt (Add c) \<Longrightarrow> preAdd_prompt w p c = (Returned None, c)"
  by (simp add: preAdd_prompt_def)

lemma preAdd_prompt_on:
  "prompt (Add c) \<Longrightarrow>
     prompts (snd (preAdd_prompt w p c)) = prompts c @ [''add '' @ Join w (SourceDirAbsPath c) p]"
  by (simp add: preAdd_prompt_def promptChoice_def split: sum.splits)

lemma preAdd_prompt_fields:
  "preAdd_prompt w p c = (r, c') \<Longrightarrow>
     force c' = force c \<and> stderr c' = stderr c \<and> reads c' = reads c
     \<and> (prompt (Add c') \<longrightarrow> prompt (Add c))"
  by (auto simp: preAdd_prompt_def promptChoice_def split: sum.splits if_splits)

lemma preAdd_prompt_all:
  "preAdd_prompt w p c = (r, c') \<Longrightarrow> prompts c' \<noteq> prompts c \<Longrightarrow>
   answers w (length (prompts c)) = Inr ''all'' \<Longrightarrow> r = Returned None \<and> \<not> prompt (Add c')"
  by (auto simp: preAdd_prompt_def promptChoice_def split: sum.splits if_splits)


lemma defaultPreAddFunc_fields:
  "defaultPreAddFunc w p fi c = (r, c') \<Longrightarrow>
     force c' = force c \<and> (prompt (Add c') \<longrightarrow> prompt (Add c))"
  unfolding defaultPreAddFunc_def Let_def
  by (auto split: if_splits sum.splits dest!: preAdd_prompt_fields simp: report_findings_fields)

lemma defaultPreAddFunc_quiet:
  "\<not> prompt (Add c) \<Longrightarrow> prompts (snd (defaultPreAddFunc w p fi c)) = prompts c"
  unfolding defaultPreAddFunc_def Let_def
  by (auto split: if_splits sum.splits simp: report_findings_fields preAdd_prompt_off)

lemma defaultPreAddFunc_all:
  "defaultPreAddFunc w p fi c = (r, c') \<Longrightarrow> prompts c' \<noteq> prompts c \<Longrightarrow>
   answers w (length (prompts c)) = Inr ''all'' \<Longrightarrow> r = Returned None \<and> \<not> prompt (Add c')"
  unfolding defaultPreAddFunc_def Let_def
  by (auto split: if_splits sum.splits simp: report_findings_fields
        dest!: preAdd_prompt_all)

lemma preAdd_prompt_not_violation:
  "fst (preAdd_prompt w p c) \<noteq> Returned (Some (ExitCodeError 1))"
  by (auto simp: preAdd_prompt_def promptChoice_def split: sum.splits if_splits)

lemma defaultPreAddFunc_forced:
  "force c \<Longrightarrow> fst (defaultPreAddFunc w p fi c) \<noteq> Returned (Some (ExitCodeError 1))"
  unfolding defaultPreAddFunc_def Let_def
  by (auto split: if_splits sum.splits simp: report_findings_fields preAdd_prompt_not_violation)

lemma defaultReplaceFunc_forced:
  "force c \<Longrightarrow> defaultReplaceFunc w p new old c = (Returned None, c)"
  by (simp add: defaultReplaceFunc_def)

lemma replace_prompt_fields:
  "replace_prompt w p rem c = (r, c') \<Longrightarrow> Add c' = Add c \<and> (force c \<longrightarrow> force c')"
  by (auto simp: replace_prompt_def promptChoice_def split: sum.splits if_splits)

lemma defaultReplaceFunc_fields:
  "defaultReplaceFunc w p new old c = (r, c') \<Longrightarrow> Add c' = Add c \<and> (force c \<longrightarrow> force c')"
  by (auto simp: defaultReplaceFunc_def split: if_splits option.splits dest!: replace_prompt_fields)

lemma replace_prompt_all:
  "replace_prompt w p rem c = (r, c') \<Longrightarrow> answers w (length (prompts c)) = Inr ''all'' \<Longrightarrow>
     r = Returned None \<and> force c'"
  by (auto simp: replace_prompt_def promptChoice_def split: sum.splits if_splits)

lemma defaultReplaceFunc_all:
  "defaultReplaceFunc w p new old c = (r, c') \<Longrightarrow> prompts c' \<noteq> prompts c \<Longrightarrow>
   answers w (length (prompts c)) = Inr ''all'' \<Longrightarrow> r = Returned None \<and> force c'"
  by (auto simp: defaultReplaceFunc_def split: if_splits option.splits dest!: replace_prompt_all)

lemma defaultOnIgnoreFunc_fields:
  "force (defaultOnIgnoreFunc p c) = force c \<and> Add (defaultOnIgnoreFunc p c) = Add c
   \<and> prompts (defaultOnIgnoreFunc p c) = prompts c"
  by (simp add: defaultOnIgnoreFunc_def errorf_def)

lemma after_call_force:
  assumes "force c"
  shows "force (after_call w x c)"
proof (cases x)
  case (CallOnIgnore p)
  then show ?thesis using assms defaultOnIgnoreFunc_fields [of p c] by simp
next
  case (CallPreAdd p fi)
  then show ?thesis
    using assms defaultPreAddFunc_fields [of w p fi c "fst (defaultPreAddFunc w p fi c)" "snd (defaultPreAddFunc w p fi c)"]
    by simp
next
  case (CallReplace p n e)
  then show ?thesis using assms by (simp add: defaultReplaceFunc_forced)
qed

lemma after_call_prompt_off:
  assumes "\<not> prompt (Add c)"
  shows "\<not> prompt (Add (after_call w x c))"
proof (cases x)
  case (CallOnIgnore p)
  then show ?thesis using assms defaultOnIgnoreFunc_fields [of p c] by simp
next
  case (CallPreAdd p fi)
  then show ?thesis
    using assms defaultPreAddFunc_fields [of w p fi c "fst (defaultPreAddFunc w p fi c)" "snd (defaultPreAddFunc w p fi c)"]
    by simp
next
  case (CallReplace p n e)
  then show ?thesis
    using assms defaultReplaceFunc_fields [of w p n e c "fst (defaultReplaceFunc w p n e c)" "snd (defaultReplaceFunc w p n e c)"]
    by simp
qed

lemma after_calls_force: "force c \<Longrightarrow> force (after_calls w xs c)"
  by (induction xs arbitrary: c) (simp_all add: after_call_force)

lemma after_calls_prompt_off: "\<not> prompt (Add c) \<Longrightarrow> \<not> prompt (Add (after_calls w xs c))"
  by (induction xs arbitrary: c) (simp_all add: after_call_prompt_off)


lemma answered_same: "prompts c' = prompts c \<Longrightarrow> \<not> answered w c c' a"
  by (simp add: answered_def)

lemma answered_one:
  "prompts c' = prompts c @ [x] \<Longrightarrow> answered w c c' a = (answers w (length (prompts c)) = Inr a)"
  by (simp add: answered_def)

lemma preAdd_prompt_grows:
  "preAdd_prompt w p c = (r, c') \<Longrightarrow> prompts c' = prompts c \<or> (\<exists>x. prompts c' = prompts c @ [x])"
  by (auto simp: preAdd_prompt_def promptChoice_def split: sum.splits if_splits)

lemma defaultPreAddFunc_grows:
  "defaultPreAddFunc w p fi c = (r, c') \<Longrightarrow>
     prompts c' = prompts c \<or> (\<exists>x. prompts c' = prompts c @ [x])"
  unfolding defaultPreAddFunc_def Let_def
  by (auto split: if_splits sum.splits simp: report_findings_fields dest!: preAdd_prompt_grows)

lemma defaultPreAddFunc_answered:
  assumes "defaultPreAddFunc w p fi c = (r, c')" and "answered w c c' a"
  shows "prompts c' \<noteq> prompts c" and "answers w (length (prompts c)) = Inr a"
  using defaultPreAddFunc_grows [OF assms(1)] assms(2)
  by (auto simp: answered_same answered_one)

lemma replace_prompt_grows:
  "replace_prompt w p rem c = (r, c') \<Longrightarrow> \<exists>x. prompts c' = prompts c @ [x]"
  by (auto simp: replace_prompt_def promptChoice_def split: sum.splits if_splits)

lemma defaultReplaceFunc_grows:
  "defaultReplaceFunc w p new old c = (r, c') \<Longrightarrow>
     prompts c' = prompts c \<or> (\<exists>x. prompts c' = prompts c @ [x])"
  by (auto simp: defaultReplaceFunc_def split: if_splits option.splits dest!: replace_prompt_grows)

lemma defaultReplaceFunc_answered:
  assumes "defaultReplaceFunc w p new old c = (r, c')" and "answered w c c' a"
  shows "prompts c' \<noteq> prompts c" and "answers w (length (prompts c)) = Inr a"
  using defaultReplaceFunc_grows [OF assms(1)] assms(2)
  by (auto simp: answered_same answered_one)


lemmas ex_defs = exampleAttr_def exampleConfig_def exampleObservations_def exampleWorld_def

lemmas mode_defs = Type_def ModeType_def ModeDir_def ModeSymlink_def ModeDevice_def
  ModeNamedPipe_def ModeSocket_def ModeCharDevice_def ModeIrregular_def

lemmas hook_defs = defaultPreAddFunc_def preAdd_prompt_def promptChoice_def
  defaultReplaceFunc_def replace_prompt_def removedAttributes_def defaultOnIgnoreFunc_def
  errorf_def answered_def finding_message_def fmt_d_def fmt_nat.simps

section \<open>The replace hook\<close>

text \<open>
  C3: the default replace hook shows a prompt exactly when \<^verbatim>\<open>force\<close> is not set, both
  entries are file entries and the new entry lacks one of the attributes Encrypted,
  Private and Template that the old entry has; so it prompts only when both entries are
  files and such an attribute is dropped. Whenever it does not prompt (force set, an
  entry that is not a file, no such attribute dropped) it returns \<^verbatim>\<open>nil\<close>, Proceed,
  and leaves the configuration as it was.
\<close>

theorem defaultReplaceFunc_prompts_iff:
  assumes "defaultReplaceFunc w p new old c = (r, c')"
  shows "((prompts c' \<noteq> prompts c) =
           (\<not> force c \<and> (\<exists>na oa. new = SourceStateFile na \<and> old = SourceStateFile oa
              \<and> (Encrypted oa \<and> \<not> Encrypted na \<or> Private oa \<and> \<not> Private na
                  \<or> Template oa \<and> \<not> Template na))))
         \<and> (prompts c' = prompts c \<longrightarrow> r = Returned None \<and> c' = c)"
proof (cases "force c")
  case True
  with assms show ?thesis by (simp add: defaultReplaceFunc_def)
next
  case nf: False
  show ?thesis
  proof (cases "asSourceStateFile new")
    case None
    then have "\<forall>na. new \<noteq> SourceStateFile na" by (cases new) auto
    with assms nf None show ?thesis by (auto simp: defaultReplaceFunc_def)
  next
    case (Some na)
    note sn = Some
    show ?thesis
    proof (cases "asSourceStateFile old")
      case None
      then have "\<forall>oa. old \<noteq> SourceStateFile oa" by (cases old) auto
      with assms nf sn None show ?thesis by (auto simp: defaultReplaceFunc_def)
    next
      case (Some oa)
      have n: "new = SourceStateFile na" and o: "old = SourceStateFile oa"
        using sn Some by (simp_all add: asSourceStateFile_Some)
      show ?thesis
      proof (cases "length (removedAttributes na oa) = 0")
        case True
        with assms nf n o show ?thesis
          using removedAttributes_empty [of na oa] by (auto simp: defaultReplaceFunc_def)
      next
        case False
        with assms nf n o have "replace_prompt w p (removedAttributes na oa) c = (r, c')"
          by (simp add: defaultReplaceFunc_def)
        then have "prompts c' \<noteq> prompts c"
          using replace_prompt_prompts [of w p "removedAttributes na oa" c] by simp
        with False n o nf show ?thesis
          using removedAttributes_empty [of na oa] by auto
      qed
    qed
  qed
qed

theorem defaultReplaceFunc_prompts_iff_witness:
  "defaultReplaceFunc (exampleWorld (\<lambda>n. Inr ''yes'')) ''notes.txt'' (SourceStateFile exampleAttr)
       (SourceStateFile (exampleAttr\<lparr>Template := True\<rparr>)) exampleConfig
     = (Returned None,
        exampleConfig\<lparr>prompts := [''adding notes.txt would remove template attribute, continue'']\<rparr>)
   \<and> defaultReplaceFunc (exampleWorld (\<lambda>n. Inr ''yes'')) ''notes.txt'' (SourceStateFile exampleAttr)
       (SourceStateDir (exampleAttr\<lparr>Template := True\<rparr>)) exampleConfig
     = (Returned None, exampleConfig)"
  using defaultReplaceFunc_prompts_iff
    [of "exampleWorld (\<lambda>n. Inr ''yes'')" "''notes.txt''" "SourceStateFile exampleAttr"
        "SourceStateFile (exampleAttr\<lparr>Template := True\<rparr>)" exampleConfig "Returned None"
        "exampleConfig\<lparr>prompts := [''adding notes.txt would remove template attribute, continue'']\<rparr>"]
    defaultReplaceFunc_prompts_iff
    [of "exampleWorld (\<lambda>n. Inr ''yes'')" "''notes.txt''" "SourceStateFile exampleAttr"
        "SourceStateDir (exampleAttr\<lparr>Template := True\<rparr>)" exampleConfig "Returned None"
        exampleConfig]
  by (simp add: ex_defs hook_defs)

section \<open>The answer "all"\<close>

text \<open>
  C4: when the user answers "all" at the pre-add prompt, the hook returns \<^verbatim>\<open>nil\<close>,
  Proceed, and has switched \<^verbatim>\<open>Add.prompt\<close> off; from then on, after any further hook
  calls of the run, every call of the pre-add hook returns without showing a prompt.
\<close>

theorem preAdd_all_disables_prompting:
  assumes "defaultPreAddFunc w p fi c = (r, c1)"
    and ans: "answered w c c1 ''all''"
  shows "r = Returned None \<and> \<not> prompt (Add c1)
         \<and> (\<forall>calls p' fi'. prompts (snd (defaultPreAddFunc w p' fi' (after_calls w calls c1)))
                              = prompts (after_calls w calls c1))"
proof -
  have a: "r = Returned None \<and> \<not> prompt (Add c1)"
    using assms(1) defaultPreAddFunc_answered [OF assms(1) ans] by (rule defaultPreAddFunc_all)
  then have "\<not> prompt (Add (after_calls w calls c1))" for calls
    by (simp add: after_calls_prompt_off)
  then show ?thesis using a by (simp add: defaultPreAddFunc_quiet)
qed

theorem preAdd_all_disables_prompting_witness:
  "answered (exampleWorld (\<lambda>n. Inr ''all'')) exampleConfig
     (snd (defaultPreAddFunc (exampleWorld (\<lambda>n. Inr ''all'')) ''notes.txt'' \<lparr>Mode = 0x1A4\<rparr> exampleConfig)) ''all''
   \<and> fst (defaultPreAddFunc (exampleWorld (\<lambda>n. Inr ''all'')) ''notes.txt'' \<lparr>Mode = 0x1A4\<rparr> exampleConfig)
       = Returned None
   \<and> prompts (snd (defaultPreAddFunc (exampleWorld (\<lambda>n. Inr ''all'')) ''notes.txt'' \<lparr>Mode = 0x1A4\<rparr> exampleConfig))
       = [''add /home/u/.local/share/chezmoi/notes.txt'']
   \<and> prompts (snd (defaultPreAddFunc (exampleWorld (\<lambda>n. Inr ''all'')) ''todo.txt'' \<lparr>Mode = 0x1A4\<rparr>
        (after_calls (exampleWorld (\<lambda>n. Inr ''all'')) [CallOnIgnore ''.cache'']
          (snd (defaultPreAddFunc (exampleWorld (\<lambda>n. Inr ''all'')) ''notes.txt'' \<lparr>Mode = 0x1A4\<rparr> exampleConfig)))))
       = [''add /home/u/.local/share/chezmoi/notes.txt'']"
  using preAdd_all_disables_prompting
    [of "exampleWorld (\<lambda>n. Inr ''all'')" "''notes.txt''" "\<lparr>Mode = 0x1A4\<rparr>" exampleConfig
        "fst (defaultPreAddFunc (exampleWorld (\<lambda>n. Inr ''all'')) ''notes.txt'' \<lparr>Mode = 0x1A4\<rparr> exampleConfig)"
        "snd (defaultPreAddFunc (exampleWorld (\<lambda>n. Inr ''all'')) ''notes.txt'' \<lparr>Mode = 0x1A4\<rparr> exampleConfig)"]
  by (simp add: ex_defs hook_defs mode_defs Let_def)

text \<open>
  C5: when the user answers "all" at the replace prompt, the hook returns \<^verbatim>\<open>nil\<close>,
  Proceed; from then on, after any further hook calls of the run, every call of the
  replace hook returns Proceed at once, with no prompt and no other effect.
\<close>

theorem replace_all_forces:
  assumes "defaultReplaceFunc w p new old c = (r, c1)"
    and ans: "answered w c c1 ''all''"
  shows "r = Returned None
         \<and> (\<forall>calls p' new' old'. defaultReplaceFunc w p' new' old' (after_calls w calls c1)
                              = (Returned None, after_calls w calls c1))"
proof -
  have a: "r = Returned None \<and> force c1"
    using assms(1) defaultReplaceFunc_answered [OF assms(1) ans] by (rule defaultReplaceFunc_all)
  then have "force (after_calls w calls c1)" for calls
    by (simp add: after_calls_force)
  then show ?thesis using a by (simp add: defaultReplaceFunc_forced)
qed

theorem replace_all_forces_witness:
  "answered (exampleWorld (\<lambda>n. Inr ''all'')) exampleConfig
     (snd (defaultReplaceFunc (exampleWorld (\<lambda>n. Inr ''all'')) ''notes.txt'' (SourceStateFile exampleAttr)
        (SourceStateFile (exampleAttr\<lparr>Template := True\<rparr>)) exampleConfig)) ''all''
   \<and> fst (defaultReplaceFunc (exampleWorld (\<lambda>n. Inr ''all'')) ''notes.txt'' (SourceStateFile exampleAttr)
        (SourceStateFile (exampleAttr\<lparr>Template := True\<rparr>)) exampleConfig) = Returned None
   \<and> fst (defaultReplaceFunc (exampleWorld (\<lambda>n. Inr ''all'')) ''.netrc'' (SourceStateFile exampleAttr)
        (SourceStateFile (exampleAttr\<lparr>Private := True\<rparr>))
        (after_calls (exampleWorld (\<lambda>n. Inr ''all'')) [CallPreAdd ''.netrc'' \<lparr>Mode = 0x180\<rparr>]
           (snd (defaultReplaceFunc (exampleWorld (\<lambda>n. Inr ''all'')) ''notes.txt''
              (SourceStateFile exampleAttr) (SourceStateFile (exampleAttr\<lparr>Template := True\<rparr>))
              exampleConfig)))) = Returned None
   \<and> prompts (snd (defaultReplaceFunc (exampleWorld (\<lambda>n. Inr ''all'')) ''.netrc'' (SourceStateFile exampleAttr)
        (SourceStateFile (exampleAttr\<lparr>Private := True\<rparr>))
        (after_calls (exampleWorld (\<lambda>n. Inr ''all'')) []
           (snd (defaultReplaceFunc (exampleWorld (\<lambda>n. Inr ''all'')) ''notes.txt''
              (SourceStateFile exampleAttr) (SourceStateFile (exampleAttr\<lparr>Template := True\<rparr>))
              exampleConfig)))))
      = [''adding notes.txt would remove template attribute, continue'']"
  using replace_all_forces
    [of "exampleWorld (\<lambda>n. Inr ''all'')" "''notes.txt''" "SourceStateFile exampleAttr"
        "SourceStateFile (exampleAttr\<lparr>Template := True\<rparr>)" exampleConfig
        "fst (defaultReplaceFunc (exampleWorld (\<lambda>n. Inr ''all'')) ''notes.txt'' (SourceStateFile exampleAttr)
           (SourceStateFile (exampleAttr\<lparr>Template := True\<rparr>)) exampleConfig)"
        "snd (defaultReplaceFunc (exampleWorld (\<lambda>n. Inr ''all'')) ''notes.txt'' (SourceStateFile exampleAttr)
           (SourceStateFile (exampleAttr\<lparr>Template := True\<rparr>)) exampleConfig)"]
  by (simp add: ex_defs hook_defs mode_defs Let_def)

text \<open>
  C6: the answer "all" at the replace prompt sets \<^verbatim>\<open>force\<close>; from then on, after any
  further hook calls of the run, no call of the pre-add hook returns the policy
  violation \<^verbatim>\<open>ExitCodeError(1)\<close>, whatever the scan of the file finds. (The errors of
  the collaborators are values of their own, distinct from \<^verbatim>\<open>ExitCodeError\<close>.) In the
  witness the scan of \<^verbatim>\<open>.netrc\<close> under severity "error" aborts before the answer and
  proceeds after it.
\<close>

theorem replace_all_suppresses_policy_abort:
  assumes "defaultReplaceFunc w p new old c = (r, c1)"
    and ans: "answered w c c1 ''all''"
  shows "force c1
         \<and> (\<forall>calls p' fi'. fst (defaultPreAddFunc w p' fi' (after_calls w calls c1))
                              \<noteq> Returned (Some (ExitCodeError 1)))"
proof -
  have a: "r = Returned None \<and> force c1"
    using assms(1) defaultReplaceFunc_answered [OF assms(1) ans] by (rule defaultReplaceFunc_all)
  then have "force (after_calls w calls c1)" for calls
    by (simp add: after_calls_force)
  then show ?thesis using a by (simp add: defaultPreAddFunc_forced)
qed


theorem replace_all_suppresses_policy_abort_witness:
  "answered (exampleWorld (\<lambda>n. Inr ''all'')) (exampleConfig\<lparr>Add := (Add exampleConfig)\<lparr>prompt := False\<rparr>\<rparr>)
     (snd (defaultReplaceFunc (exampleWorld (\<lambda>n. Inr ''all'')) ''notes.txt'' (SourceStateFile exampleAttr)
        (SourceStateFile (exampleAttr\<lparr>Template := True\<rparr>))
        (exampleConfig\<lparr>Add := (Add exampleConfig)\<lparr>prompt := False\<rparr>\<rparr>))) ''all''
   \<and> fst (defaultPreAddFunc (exampleWorld (\<lambda>n. Inr ''all'')) ''.netrc'' \<lparr>Mode = 0x180\<rparr>
        (exampleConfig\<lparr>Add := (Add exampleConfig)\<lparr>prompt := False\<rparr>\<rparr>))
       = Returned (Some (ExitCodeError 1))
   \<and> fst (defaultPreAddFunc (exampleWorld (\<lambda>n. Inr ''all'')) ''.netrc'' \<lparr>Mode = 0x180\<rparr>
        (after_calls (exampleWorld (\<lambda>n. Inr ''all'')) []
          (snd (defaultReplaceFunc (exampleWorld (\<lambda>n. Inr ''all'')) ''notes.txt'' (SourceStateFile exampleAttr)
             (SourceStateFile (exampleAttr\<lparr>Template := True\<rparr>))
             (exampleConfig\<lparr>Add := (Add exampleConfig)\<lparr>prompt := False\<rparr>\<rparr>)))))
       = Returned None"
  using replace_all_suppresses_policy_abort
    [of "exampleWorld (\<lambda>n. Inr ''all'')" "''notes.txt''" "SourceStateFile exampleAttr"
        "SourceStateFile (exampleAttr\<lparr>Template := True\<rparr>)"
        "exampleConfig\<lparr>Add := (Add exampleConfig)\<lparr>prompt := False\<rparr>\<rparr>"
        "fst (defaultReplaceFunc (exampleWorld (\<lambda>n. Inr ''all'')) ''notes.txt'' (SourceStateFile exampleAttr)
           (SourceStateFile (exampleAttr\<lparr>Template := True\<rparr>))
           (exampleConfig\<lparr>Add := (Add exampleConfig)\<lparr>prompt := False\<rparr>\<rparr>))"
        "snd (defaultReplaceFunc (exampleWorld (\<lambda>n. Inr ''all'')) ''notes.txt'' (SourceStateFile exampleAttr)
           (SourceStateFile (exampleAttr\<lparr>Template := True\<rparr>))
           (exampleConfig\<lparr>Add := (Add exampleConfig)\<lparr>prompt := False\<rparr>\<rparr>))"]
  by (simp add: ex_defs hook_defs mode_defs Let_def)

section \<open>The secret scan\<close>

lemma defaultPreAddFunc_no_scan:
  "\<not> (Secrets (Add c) \<noteq> severityIgnore \<and> Type (Mode fi) = 0 \<and> \<not> Encrypt (Add c)) \<Longrightarrow>
     defaultPreAddFunc w p fi c = preAdd_prompt w p c"
  unfolding defaultPreAddFunc_def by auto

lemma preAdd_prompt_world:
  "answers w' = answers w \<Longrightarrow> Join w' = Join w \<Longrightarrow> preAdd_prompt w' p c = preAdd_prompt w p c"
  by (simp add: preAdd_prompt_def promptChoice_def)

lemma defaultPreAddFunc_scan_reads:
  "Secrets (Add c) \<noteq> severityIgnore \<and> Type (Mode fi) = 0 \<and> \<not> Encrypt (Add c) \<Longrightarrow>
   defaultPreAddFunc w p fi c = (r, c') \<Longrightarrow> reads c' = reads c @ [Join w (DestDirAbsPath c) p]"
  unfolding defaultPreAddFunc_def Let_def
  by (auto split: sum.splits if_splits simp: report_findings_fields dest!: preAdd_prompt_fields)

lemma defaultPreAddFunc_scan_stderr:
  "Secrets (Add c) \<noteq> severityIgnore \<and> Type (Mode fi) = 0 \<and> \<not> Encrypt (Add c) \<Longrightarrow>
   ReadFile w (Join w (DestDirAbsPath c) p) = Inr content \<Longrightarrow> getGitleaksDetector w = Inr det \<Longrightarrow>
   defaultPreAddFunc w p fi c = (r, c') \<Longrightarrow>
   stderr c' = stderr c @ map (finding_message (Join w (DestDirAbsPath c) p)) (det content)"
  unfolding defaultPreAddFunc_def Let_def
  by (auto split: sum.splits if_splits simp: report_findings_fields report_findings_stderr
        dest!: preAdd_prompt_fields)

lemma defaultPreAddFunc_violation:
  assumes "Secrets (Add c) = severityError" and "Type (Mode fi) = 0" and "\<not> Encrypt (Add c)"
    and "\<not> force c"
    and "ReadFile w (Join w (DestDirAbsPath c) p) = Inr content"
    and "getGitleaksDetector w = Inr det" and "det content \<noteq> []"
  shows "defaultPreAddFunc w p fi c =
           (Returned (Some (ExitCodeError 1)),
            report_findings (Join w (DestDirAbsPath c) p) (det content)
              (c\<lparr>reads := reads c @ [Join w (DestDirAbsPath c) p]\<rparr>))"
  using assms by (simp add: defaultPreAddFunc_def Let_def report_findings_fields)

text \<open>
  C7: the default pre-add hook undertakes the scan, that is, reads the candidate's
  content through \<^verbatim>\<open>ReadFile\<close>, if and only if the secrets severity is not "ignore",
  the candidate is a regular file and \<^verbatim>\<open>Encrypt\<close> is not set. When it does, and the
  content can be read and the detector built, the findings of the detector on that
  content are what it reports. When it does not, in particular when \<^verbatim>\<open>Encrypt\<close> is
  set, nothing is read or reported, the result is not the policy violation
  \<^verbatim>\<open>ExitCodeError(1)\<close>, and result and configuration are the same whatever the files
  contain and whatever the detector is.
\<close>

theorem defaultPreAddFunc_scans_iff:
  assumes "defaultPreAddFunc w p fi c = (r, c')"
  shows "((reads c' \<noteq> reads c)
            = (Secrets (Add c) \<noteq> severityIgnore \<and> Type (Mode fi) = 0 \<and> \<not> Encrypt (Add c)))
         \<and> (reads c' \<noteq> reads c \<longrightarrow>
              reads c' = reads c @ [Join w (DestDirAbsPath c) p]
              \<and> (\<forall>content det.
                    ReadFile w (Join w (DestDirAbsPath c) p) = Inr content
                    \<and> getGitleaksDetector w = Inr det \<longrightarrow>
                    stderr c' = stderr c
                      @ map (finding_message (Join w (DestDirAbsPath c) p)) (det content)))
         \<and> (reads c' = reads c \<longrightarrow>
              stderr c' = stderr c \<and> r \<noteq> Returned (Some (ExitCodeError 1))
              \<and> (\<forall>readFile detector.
                    defaultPreAddFunc
                      (w\<lparr>ReadFile := readFile, getGitleaksDetector := detector\<rparr>) p fi c
                    = (r, c')))
         \<and> (Encrypt (Add c) \<longrightarrow> reads c' = reads c)"
proof (cases "Secrets (Add c) \<noteq> severityIgnore \<and> Type (Mode fi) = 0 \<and> \<not> Encrypt (Add c)")
  case True
  have rd: "reads c' = reads c @ [Join w (DestDirAbsPath c) p]"
    using True assms by (rule defaultPreAddFunc_scan_reads)
  have "stderr c' = stderr c @ map (finding_message (Join w (DestDirAbsPath c) p)) (det content)"
    if "ReadFile w (Join w (DestDirAbsPath c) p) = Inr content" and "getGitleaksDetector w = Inr det"
    for content det
    using True that assms by (rule defaultPreAddFunc_scan_stderr)
  with True rd show ?thesis by simp
next
  case False
  then have eq: "preAdd_prompt w p c = (r, c')"
    using assms by (simp add: defaultPreAddFunc_no_scan)
  have f: "stderr c' = stderr c \<and> reads c' = reads c"
    using preAdd_prompt_fields [OF eq] by simp
  have nv: "r \<noteq> Returned (Some (ExitCodeError 1))"
    using preAdd_prompt_not_violation [of w p c] eq by simp
  have "defaultPreAddFunc (w\<lparr>ReadFile := readFile, getGitleaksDetector := detector\<rparr>) p fi c = (r, c')"
    for readFile detector
    using False eq
    by (simp add: defaultPreAddFunc_no_scan
          preAdd_prompt_world [of "w\<lparr>ReadFile := readFile, getGitleaksDetector := detector\<rparr>" w])
  with False f nv show ?thesis by simp
qed

theorem defaultPreAddFunc_scans_iff_witness:
  "defaultPreAddFunc (exampleWorld (exampleAnswers [''yes''])) ''.netrc'' \<lparr>Mode = 0x180\<rparr>
       (exampleConfig\<lparr>force := True\<rparr>)
     = (Returned None,
        exampleConfig\<lparr>force := True, stderr := [''/home/u/.netrc:1: password'' @ [CHR 0x0A]],
          prompts := [''add /home/u/.local/share/chezmoi/.netrc''],
          reads := [''/home/u/.netrc'']\<rparr>)
   \<and> defaultPreAddFunc (exampleWorld (exampleAnswers [''yes''])) ''.netrc'' \<lparr>Mode = 0x180\<rparr>
       (exampleConfig\<lparr>Add := (Add exampleConfig)\<lparr>Encrypt := True\<rparr>\<rparr>)
     = (Returned None,
        exampleConfig\<lparr>Add := (Add exampleConfig)\<lparr>Encrypt := True\<rparr>,
          prompts := [''add /home/u/.local/share/chezmoi/.netrc'']\<rparr>)
   \<and> defaultPreAddFunc
       ((exampleWorld (exampleAnswers [''yes'']))
          \<lparr>ReadFile := \<lambda>p. Inl ''permission denied'', getGitleaksDetector := Inl ''no detector''\<rparr>)
       ''.netrc'' \<lparr>Mode = 0x180\<rparr> (exampleConfig\<lparr>Add := (Add exampleConfig)\<lparr>Encrypt := True\<rparr>\<rparr>)
     = (Returned None,
        exampleConfig\<lparr>Add := (Add exampleConfig)\<lparr>Encrypt := True\<rparr>,
          prompts := [''add /home/u/.local/share/chezmoi/.netrc'']\<rparr>)"
proof -
  let ?w = "exampleWorld (exampleAnswers [''yes''])"
  let ?c = "exampleConfig\<lparr>force := True\<rparr>"
  let ?c' = "exampleConfig\<lparr>force := True, stderr := [''/home/u/.netrc:1: password'' @ [CHR 0x0A]],
          prompts := [''add /home/u/.local/share/chezmoi/.netrc''],
          reads := [''/home/u/.netrc'']\<rparr>"
  let ?d = "exampleConfig\<lparr>Add := (Add exampleConfig)\<lparr>Encrypt := True\<rparr>\<rparr>"
  let ?d' = "exampleConfig\<lparr>Add := (Add exampleConfig)\<lparr>Encrypt := True\<rparr>,
          prompts := [''add /home/u/.local/share/chezmoi/.netrc'']\<rparr>"
  have scan: "defaultPreAddFunc ?w ''.netrc'' \<lparr>Mode = 0x180\<rparr> ?c = (Returned None, ?c')"
    by (simp add: ex_defs exampleAnswers_def hook_defs mode_defs Let_def)
  have enc: "defaultPreAddFunc ?w ''.netrc'' \<lparr>Mode = 0x180\<rparr> ?d = (Returned None, ?d')"
    by (simp add: ex_defs exampleAnswers_def hook_defs mode_defs Let_def)
  note a = defaultPreAddFunc_scans_iff [OF scan]
  note b = defaultPreAddFunc_scans_iff [OF enc]
  have same: "reads ?d' = reads ?d" by simp
  have "defaultPreAddFunc
          (?w\<lparr>ReadFile := \<lambda>p. Inl ''permission denied'', getGitleaksDetector := Inl ''no detector''\<rparr>)
          ''.netrc'' \<lparr>Mode = 0x180\<rparr> ?d = (Returned None, ?d')"
    using b same by blast
  with scan enc a show ?thesis by simp
qed

section \<open>The answers "quit" and "no", and the policy violation, in a run\<close>

lemma answered_split:
  assumes "length (prompts c) \<le> length (prompts c1)"
    and "length (prompts c1) \<le> length (prompts c2)"
  shows "answered w c c2 a = (answered w c c1 a \<or> answered w c1 c2 a)"
proof -
  have "{length (prompts c)..<length (prompts c2)}
          = {length (prompts c)..<length (prompts c1)}
            \<union> {length (prompts c1)..<length (prompts c2)}"
    using assms by auto
  then show ?thesis by (simp add: answered_def list_ex_iff bex_Un)
qed

lemma answered_none: "length (prompts c') = length (prompts c) \<Longrightarrow> \<not> answered w c c' a"
  by (simp add: answered_def)

lemma defaultPreAddFunc_mono:
  "defaultPreAddFunc w p fi c = (r, c') \<Longrightarrow> length (prompts c) \<le> length (prompts c')"
  using defaultPreAddFunc_grows [of w p fi c r c'] by auto

lemma defaultReplaceFunc_mono:
  "defaultReplaceFunc w p new old c = (r, c') \<Longrightarrow> length (prompts c) \<le> length (prompts c')"
  using defaultReplaceFunc_grows [of w p new old c r c'] by auto

lemma preAdd_prompt_choice:
  "preAdd_prompt w p c = (r, c') \<Longrightarrow> prompts c' \<noteq> prompts c \<Longrightarrow>
     (answers w (length (prompts c)) = Inr ''quit'' \<longrightarrow> r = Returned (Some (ExitCodeError 0)))
     \<and> (answers w (length (prompts c)) = Inr ''no'' \<longrightarrow> r = Returned (Some SkipDir))"
  by (auto simp: preAdd_prompt_def promptChoice_def split: sum.splits if_splits)

lemma defaultPreAddFunc_choice:
  "defaultPreAddFunc w p fi c = (r, c') \<Longrightarrow> prompts c' \<noteq> prompts c \<Longrightarrow>
     (answers w (length (prompts c)) = Inr ''quit'' \<longrightarrow> r = Returned (Some (ExitCodeError 0)))
     \<and> (answers w (length (prompts c)) = Inr ''no'' \<longrightarrow> r = Returned (Some SkipDir))"
  unfolding defaultPreAddFunc_def Let_def
  by (auto split: if_splits sum.splits simp: report_findings_fields dest!: preAdd_prompt_choice)

lemma replace_prompt_choice:
  "replace_prompt w p rem c = (r, c') \<Longrightarrow>
     (answers w (length (prompts c)) = Inr ''quit'' \<longrightarrow> r = Returned (Some (ExitCodeError 0)))
     \<and> (answers w (length (prompts c)) = Inr ''no'' \<longrightarrow> r = Returned (Some SkipDir))"
  by (auto simp: replace_prompt_def promptChoice_def split: sum.splits if_splits)

lemma defaultReplaceFunc_choice:
  "defaultReplaceFunc w p new old c = (r, c') \<Longrightarrow> prompts c' \<noteq> prompts c \<Longrightarrow>
     (answers w (length (prompts c)) = Inr ''quit'' \<longrightarrow> r = Returned (Some (ExitCodeError 0)))
     \<and> (answers w (length (prompts c)) = Inr ''no'' \<longrightarrow> r = Returned (Some SkipDir))"
  by (auto simp: defaultReplaceFunc_def split: if_splits option.splits dest!: replace_prompt_choice)

lemma defaultPreAddFunc_quit:
  assumes "defaultPreAddFunc w p fi c = (r, c')" and "answered w c c' ''quit''"
  shows "r = Returned (Some (ExitCodeError 0))"
  using defaultPreAddFunc_choice [OF assms(1)] defaultPreAddFunc_answered [OF assms] by simp

lemma defaultPreAddFunc_no:
  assumes "defaultPreAddFunc w p fi c = (r, c')" and "answered w c c' ''no''"
  shows "r = Returned (Some SkipDir)"
  using defaultPreAddFunc_choice [OF assms(1)] defaultPreAddFunc_answered [OF assms] by simp

lemma defaultReplaceFunc_quit:
  assumes "defaultReplaceFunc w p new old c = (r, c')" and "answered w c c' ''quit''"
  shows "r = Returned (Some (ExitCodeError 0))"
  using defaultReplaceFunc_choice [OF assms(1)] defaultReplaceFunc_answered [OF assms] by simp

lemma defaultReplaceFunc_no:
  assumes "defaultReplaceFunc w p new old c = (r, c')" and "answered w c c' ''no''"
  shows "r = Returned (Some SkipDir)"
  using defaultReplaceFunc_choice [OF assms(1)] defaultReplaceFunc_answered [OF assms] by simp

lemma writeEntry_cfg: "cfg (writeEntry p e st) = cfg st"
  by (simp add: writeEntry_def)

lemma addOptions_hooks:
  "PreAddFunc (addOptions w c0 psf) = defaultPreAddFunc w"
  "ReplaceFunc (addOptions w c0 psf) = defaultReplaceFunc w"
  "OnIgnoreFunc (addOptions w c0 psf) = defaultOnIgnoreFunc"
  by (simp_all add: addOptions_def)

lemma replaceAndWrite_step:
  assumes "replaceAndWrite (addOptions w c0 psf) p new st = (r, st')"
  shows "length (prompts (cfg st)) \<le> length (prompts (cfg st'))
     \<and> (answered w (cfg st) (cfg st') ''quit'' \<longrightarrow> r = Returned (Some (ExitCodeError 0)))
     \<and> (answered w (cfg st) (cfg st') ''no'' \<longrightarrow>
          r = Returned None \<and> entries st' = entries st \<and> written st' = written st)"
proof (cases "entries st p")
  case None
  with assms have "st' = writeEntry p new st" by (simp add: replaceAndWrite_def)
  then show ?thesis by (simp add: writeEntry_cfg answered_none)
next
  case (Some old)
  show ?thesis
  proof (cases "dropsAttribute new old")
    case False
    with assms Some have "st' = writeEntry p new st" by (simp add: replaceAndWrite_def)
    then show ?thesis by (simp add: writeEntry_cfg answered_none)
  next
    case True
    obtain r0 c' where h: "defaultReplaceFunc w p new old (cfg st) = (r0, c')"
      by (cases "defaultReplaceFunc w p new old (cfg st)")
    have res: "(r, st') =
        (if r0 = Returned None then (Returned None, writeEntry p new (st\<lparr>cfg := c'\<rparr>))
         else if r0 = Returned (Some SkipDir) then (Returned None, st\<lparr>cfg := c'\<rparr>)
         else (r0, st\<lparr>cfg := c'\<rparr>))"
      using assms Some True h by (simp add: replaceAndWrite_def addOptions_hooks)
    then have c: "cfg st' = c'"
      by (auto simp: writeEntry_cfg split: if_splits)
    have m: "length (prompts (cfg st)) \<le> length (prompts c')"
      using h by (rule defaultReplaceFunc_mono)
    have q: "r = Returned (Some (ExitCodeError 0))" if "answered w (cfg st) c' ''quit''"
      using defaultReplaceFunc_quit [OF h that] res by simp
    have n: "r = Returned None \<and> entries st' = entries st \<and> written st' = written st"
      if "answered w (cfg st) c' ''no''"
      using defaultReplaceFunc_no [OF h that] res by simp
    from c m q n show ?thesis by simp
  qed
qed

lemma buildAndWrite_step:
  assumes "buildAndWrite w (addOptions w c0 psf) obs st = (r, st')"
  shows "length (prompts (cfg st)) \<le> length (prompts (cfg st'))
     \<and> (answered w (cfg st) (cfg st') ''quit'' \<longrightarrow> r = Returned (Some (ExitCodeError 0)))
     \<and> (answered w (cfg st) (cfg st') ''no'' \<longrightarrow>
          r = Returned None \<and> entries st' = entries st \<and> written st' = written st)"
proof (cases "buildEntry w obs (entries st (obsRelPath obs))")
  case (Inl err)
  with assms have "st' = st" by (simp add: buildAndWrite_def)
  then show ?thesis by (simp add: answered_none)
next
  case (Inr new)
  with assms have "replaceAndWrite (addOptions w c0 psf) (obsRelPath obs) new st = (r, st')"
    by (simp add: buildAndWrite_def)
  then show ?thesis by (rule replaceAndWrite_step)
qed

lemma captureOne_step:
  assumes "captureOne w (addOptions w c0 psf) obs st = (r, st')"
  shows "length (prompts (cfg st)) \<le> length (prompts (cfg st'))
     \<and> (answered w (cfg st) (cfg st') ''quit'' \<longrightarrow> r = Returned (Some (ExitCodeError 0)))
     \<and> (answered w (cfg st) (cfg st') ''no'' \<longrightarrow>
          r = Returned None \<and> entries st' = entries st \<and> written st' = written st)"
proof (cases "isProtected (ProtectedAbsPaths (addOptions w c0 psf)) (obsAbsPath obs)
              \<or> \<not> included (optFilter (addOptions w c0 psf)) (obsEntryType obs)")
  case True
  with assms have "st' = st\<lparr>cfg := defaultOnIgnoreFunc (obsRelPath obs) (cfg st)\<rparr>"
    by (auto simp: captureOne_def addOptions_hooks split: if_splits)
  then show ?thesis by (simp add: defaultOnIgnoreFunc_fields answered_none)
next
  case False
  show ?thesis
  proof (cases "obsEntryType obs")
    case Dir
    with assms False have "buildAndWrite w (addOptions w c0 psf) obs st = (r, st')"
      by (simp add: captureOne_def)
    then show ?thesis by (rule buildAndWrite_step)
  next
    case Symlink
    with assms False have "buildAndWrite w (addOptions w c0 psf) obs st = (r, st')"
      by (simp add: captureOne_def)
    then show ?thesis by (rule buildAndWrite_step)
  next
    case Script
    with assms False have "st' = st" by (simp add: captureOne_def)
    then show ?thesis by (simp add: answered_none)
  next
    case Remove
    with assms False have "st' = st" by (simp add: captureOne_def)
    then show ?thesis by (simp add: answered_none)
  next
    case File
    obtain r1 c1 where
      h: "defaultPreAddFunc w (obsRelPath obs) \<lparr>Mode = obsMode obs\<rparr> (cfg st) = (r1, c1)"
      by (cases "defaultPreAddFunc w (obsRelPath obs) \<lparr>Mode = obsMode obs\<rparr> (cfg st)")
    have res: "(r, st') =
        (if r1 = Returned None then buildAndWrite w (addOptions w c0 psf) obs (st\<lparr>cfg := c1\<rparr>)
         else if r1 = Returned (Some SkipDir) then (Returned None, st\<lparr>cfg := c1\<rparr>)
         else (r1, st\<lparr>cfg := c1\<rparr>))"
      using assms False File h by (simp add: captureOne_def addOptions_hooks)
    have m1: "length (prompts (cfg st)) \<le> length (prompts c1)"
      using h by (rule defaultPreAddFunc_mono)
    have q1: "r1 = Returned (Some (ExitCodeError 0))" if "answered w (cfg st) c1 ''quit''"
      using h that by (rule defaultPreAddFunc_quit)
    have n1: "r1 = Returned (Some SkipDir)" if "answered w (cfg st) c1 ''no''"
      using h that by (rule defaultPreAddFunc_no)
    show ?thesis
    proof (cases "r1 = Returned None")
      case True
      with res have bw: "buildAndWrite w (addOptions w c0 psf) obs (st\<lparr>cfg := c1\<rparr>) = (r, st')"
        by simp
      note s2 = buildAndWrite_step [OF bw]
      have m2: "length (prompts c1) \<le> length (prompts (cfg st'))"
        using s2 by simp
      have sp: "answered w (cfg st) (cfg st') a
                  = (answered w (cfg st) c1 a \<or> answered w c1 (cfg st') a)" for a
        using m1 m2 by (rule answered_split)
      have nq: "\<not> answered w (cfg st) c1 ''quit''" using q1 True by auto
      have nn: "\<not> answered w (cfg st) c1 ''no''" using n1 True by auto
      from s2 m1 m2 nq nn show ?thesis by (simp add: sp)
    next
      case False
      with res have c: "cfg st' = c1" by (auto split: if_splits)
      from res False q1 n1 m1 c show ?thesis by (auto split: if_splits)
    qed
  qed
qed

lemma Capture_step:
  "Capture w (addOptions w c0 psf) obss st = (r, st') \<Longrightarrow>
     length (prompts (cfg st)) \<le> length (prompts (cfg st'))
     \<and> (answered w (cfg st) (cfg st') ''quit'' \<longrightarrow> r = Returned (Some (ExitCodeError 0)))"
proof (induction obss arbitrary: st)
  case Nil
  then show ?case by (simp add: answered_none)
next
  case (Cons obs rest)
  obtain r1 st1 where h: "captureOne w (addOptions w c0 psf) obs st = (r1, st1)"
    by (cases "captureOne w (addOptions w c0 psf) obs st")
  note s1 = captureOne_step [OF h]
  show ?case
  proof (cases "r1 = Returned None")
    case True
    with Cons.prems h have rest: "Capture w (addOptions w c0 psf) rest st1 = (r, st')"
      by simp
    note s2 = Cons.IH [OF rest]
    have sp: "answered w (cfg st) (cfg st') ''quit''
                = (answered w (cfg st) (cfg st1) ''quit'' \<or> answered w (cfg st1) (cfg st') ''quit'')"
      using s1 s2 by (simp add: answered_split)
    have "\<not> answered w (cfg st) (cfg st1) ''quit''" using s1 True by auto
    with s1 s2 sp show ?thesis by simp
  next
    case False
    with Cons.prems h have "r = r1" and "st' = st1" by simp_all
    with s1 show ?thesis by simp
  qed
qed

lemma runAddCmd_quit:
  assumes "runAddCmd w c args sourceState = (r, st')" and "answered w c (cfg st') ''quit''"
  shows "r = Returned (Some (ExitCodeError 0))"
proof (cases "destAbsPathInfos w sourceState args
                (cMode c = chezmoiModeSymlink \<or> follow (Add c)) (recursive (Add c))")
  case (Inl err)
  with assms(1) have "cfg st' = c" by (auto simp: runAddCmd_def Let_def)
  with assms(2) show ?thesis by (simp add: answered_none)
next
  case (Inr infos)
  note i = Inr
  show ?thesis
  proof (cases "persistentStateFile w")
    case (Inl err)
    with assms(1) i have "cfg st' = c" by (auto simp: runAddCmd_def Let_def)
    with assms(2) show ?thesis by (simp add: answered_none)
  next
    case (Inr psf)
    with assms(1) i have
      "Capture w (addOptions w c psf) infos \<lparr>cfg = c, entries = sourceState, written = []\<rparr> = (r, st')"
      by (simp add: runAddCmd_def Let_def)
    from Capture_step [OF this] assms(2) show ?thesis by simp
  qed
qed

lemmas run_defs = runAddCmd_def addOptions_def captureOne_def buildAndWrite_def
  replaceAndWrite_def writeEntry_def dropsAttribute_def isProtected_def included_def

text \<open>
  C2: when the user answers "quit" at the pre-add prompt or at the replace prompt, the
  hook returns the termination signal \<^verbatim>\<open>ExitCodeError(0)\<close>, whose exit status is 0;
  and a run of the add command in which some prompt is answered by "quit" ends with that
  signal as its result, so that it is reported with exit status 0.
\<close>

theorem quit_ends_run_successfully:
  "(defaultPreAddFunc w p fi c = (r, c') \<and> answered w c c' ''quit'' \<longrightarrow>
      r = Returned (Some (ExitCodeError 0)) \<and> exitStatus r = 0)
   \<and> (defaultReplaceFunc w q new old d = (s, d') \<and> answered w d d' ''quit'' \<longrightarrow>
      s = Returned (Some (ExitCodeError 0)) \<and> exitStatus s = 0)
   \<and> (runAddCmd w c0 args sourceState = (t, st') \<and> answered w c0 (cfg st') ''quit'' \<longrightarrow>
      t = Returned (Some (ExitCodeError 0)) \<and> exitStatus t = 0)"
  using defaultPreAddFunc_quit [of w p fi c r c'] defaultReplaceFunc_quit [of w q new old d s d']
    runAddCmd_quit [of w c0 args sourceState t st']
  by auto

theorem quit_ends_run_successfully_witness:
  "fst (defaultPreAddFunc (exampleWorld (exampleAnswers [''quit''])) ''notes.txt''
          \<lparr>Mode = 0x1A4\<rparr> exampleConfig) = Returned (Some (ExitCodeError 0))
   \<and> fst (defaultReplaceFunc (exampleWorld (exampleAnswers [''quit''])) ''notes.txt''
          (SourceStateFile exampleAttr) (SourceStateFile (exampleAttr\<lparr>Template := True\<rparr>))
          exampleConfig) = Returned (Some (ExitCodeError 0))
   \<and> runAddCmd (exampleWorld (exampleAnswers [''yes'', ''quit''])) exampleConfig
        [''notes.txt'', ''.netrc''] (entries exampleState)
     = (Returned (Some (ExitCodeError 0)),
        exampleState\<lparr>cfg := exampleConfig
          \<lparr>prompts := [''add /home/u/.local/share/chezmoi/notes.txt'',
                       ''adding notes.txt would remove template attribute, continue''],
           reads := [''/home/u/notes.txt'']\<rparr>\<rparr>)
   \<and> answered (exampleWorld (exampleAnswers [''yes'', ''quit''])) exampleConfig
        (exampleConfig
          \<lparr>prompts := [''add /home/u/.local/share/chezmoi/notes.txt'',
                       ''adding notes.txt would remove template attribute, continue''],
           reads := [''/home/u/notes.txt'']\<rparr>) ''quit''
   \<and> exitStatus (Returned (Some (ExitCodeError 0))) = 0"
proof -
  let ?w1 = "exampleWorld (exampleAnswers [''quit''])"
  let ?w2 = "exampleWorld (exampleAnswers [''yes'', ''quit''])"
  let ?c1 = "exampleConfig\<lparr>prompts := [''add /home/u/.local/share/chezmoi/notes.txt''],
                          reads := [''/home/u/notes.txt'']\<rparr>"
  let ?d1 = "exampleConfig
               \<lparr>prompts := [''adding notes.txt would remove template attribute, continue'']\<rparr>"
  let ?c2 = "exampleConfig
          \<lparr>prompts := [''add /home/u/.local/share/chezmoi/notes.txt'',
                       ''adding notes.txt would remove template attribute, continue''],
           reads := [''/home/u/notes.txt'']\<rparr>"
  have pre: "defaultPreAddFunc ?w1 ''notes.txt'' \<lparr>Mode = 0x1A4\<rparr> exampleConfig
               = (Returned (Some (ExitCodeError 0)), ?c1)"
    by (simp add: ex_defs exampleAnswers_def hook_defs mode_defs Let_def)
  have pre_ans: "answered ?w1 exampleConfig ?c1 ''quit''"
    by (simp add: ex_defs exampleAnswers_def answered_def)
  have rep: "defaultReplaceFunc ?w1 ''notes.txt'' (SourceStateFile exampleAttr)
               (SourceStateFile (exampleAttr\<lparr>Template := True\<rparr>)) exampleConfig
               = (Returned (Some (ExitCodeError 0)), ?d1)"
    by (simp add: ex_defs exampleAnswers_def hook_defs)
  have rep_ans: "answered ?w1 exampleConfig ?d1 ''quit''"
    by (simp add: ex_defs exampleAnswers_def answered_def)
  have run: "runAddCmd ?w2 exampleConfig [''notes.txt'', ''.netrc''] (entries exampleState)
               = (Returned (Some (ExitCodeError 0)), exampleState\<lparr>cfg := ?c2\<rparr>)"
    by (simp add: ex_defs exampleState_def exampleAnswers_def hook_defs mode_defs run_defs Let_def)
  have run_ans: "answered ?w2 exampleConfig ?c2 ''quit''"
    by (simp add: ex_defs exampleAnswers_def answered_def)
  note a = quit_ends_run_successfully
    [where w = ?w1 and p = "''notes.txt''" and fi = "\<lparr>Mode = 0x1A4\<rparr>" and c = exampleConfig
       and r = "Returned (Some (ExitCodeError 0))" and c' = ?c1
       and q = "''notes.txt''" and new = "SourceStateFile exampleAttr"
       and old = "SourceStateFile (exampleAttr\<lparr>Template := True\<rparr>)" and d = exampleConfig
       and s = "Returned (Some (ExitCodeError 0))" and d' = ?d1
       and ?c0.0 = exampleConfig and args = "[]" and sourceState = "entries exampleState"
       and t = "Returned None" and st' = exampleState]
  note b = quit_ends_run_successfully
    [where w = ?w2 and p = "''notes.txt''" and fi = "\<lparr>Mode = 0x1A4\<rparr>" and c = exampleConfig
       and r = "Returned None" and c' = exampleConfig
       and q = "''notes.txt''" and new = "SourceStateFile exampleAttr"
       and old = "SourceStateFile exampleAttr" and d = exampleConfig
       and s = "Returned None" and d' = exampleConfig
       and ?c0.0 = exampleConfig and args = "[''notes.txt'', ''.netrc'']"
       and sourceState = "entries exampleState"
       and t = "Returned (Some (ExitCodeError 0))" and st' = "exampleState\<lparr>cfg := ?c2\<rparr>"]
  have "exitStatus (Returned (Some (ExitCodeError 0))) = 0"
    using a pre pre_ans by blast
  moreover have "cfg (exampleState\<lparr>cfg := ?c2\<rparr>) = ?c2" by simp
  ultimately show ?thesis
    using pre rep run run_ans b by simp
qed

text \<open>
  C9: when the user answers "no" at the pre-add prompt or at the replace prompt, the
  hook returns \<^verbatim>\<open>fs.SkipDir\<close>, the Skip decision; the capture of an observation
  during which a prompt is answered by "no" produces no error, leaves the source state
  and the source tree as they were, and the run goes on with the next observation.
\<close>

theorem no_skips_entry:
  "(defaultPreAddFunc w p fi c = (r, c') \<and> answered w c c' ''no'' \<longrightarrow> r = Returned (Some SkipDir))
   \<and> (defaultReplaceFunc w q new old d = (s, d') \<and> answered w d d' ''no'' \<longrightarrow>
        s = Returned (Some SkipDir))
   \<and> (captureOne w (addOptions w c0 psf) obs st = (t, st') \<and> answered w (cfg st) (cfg st') ''no'' \<longrightarrow>
        t = Returned None \<and> entries st' = entries st \<and> written st' = written st
        \<and> Capture w (addOptions w c0 psf) (obs # rest) st = Capture w (addOptions w c0 psf) rest st')"
  using defaultPreAddFunc_no [of w p fi c r c'] defaultReplaceFunc_no [of w q new old d s d']
    captureOne_step [of w c0 psf obs st t st']
  by auto

theorem no_skips_entry_witness:
  "fst (defaultPreAddFunc (exampleWorld (exampleAnswers [''no''])) ''notes.txt''
          \<lparr>Mode = 0x1A4\<rparr> exampleConfig) = Returned (Some SkipDir)
   \<and> fst (defaultReplaceFunc (exampleWorld (exampleAnswers [''no''])) ''notes.txt''
          (SourceStateFile exampleAttr) (SourceStateFile (exampleAttr\<lparr>Template := True\<rparr>))
          exampleConfig) = Returned (Some SkipDir)
   \<and> captureOne (exampleWorld (exampleAnswers [''yes'', ''no'']))
        (addOptions (exampleWorld (exampleAnswers [''yes'', ''no''])) exampleConfig ''/home/u/state'')
        (hd exampleObservations) exampleState
     = (Returned None,
        exampleState\<lparr>cfg := exampleConfig
          \<lparr>prompts := [''add /home/u/.local/share/chezmoi/notes.txt'',
                       ''adding notes.txt would remove template attribute, continue''],
           reads := [''/home/u/notes.txt'']\<rparr>\<rparr>)
   \<and> answered (exampleWorld (exampleAnswers [''yes'', ''no''])) exampleConfig
        (exampleConfig
          \<lparr>prompts := [''add /home/u/.local/share/chezmoi/notes.txt'',
                       ''adding notes.txt would remove template attribute, continue''],
           reads := [''/home/u/notes.txt'']\<rparr>) ''no''
   \<and> Capture (exampleWorld (exampleAnswers [''yes'', ''no'']))
        (addOptions (exampleWorld (exampleAnswers [''yes'', ''no''])) exampleConfig ''/home/u/state'')
        (hd exampleObservations # tl exampleObservations) exampleState
     = Capture (exampleWorld (exampleAnswers [''yes'', ''no'']))
        (addOptions (exampleWorld (exampleAnswers [''yes'', ''no''])) exampleConfig ''/home/u/state'')
        (tl exampleObservations)
        (exampleState\<lparr>cfg := exampleConfig
          \<lparr>prompts := [''add /home/u/.local/share/chezmoi/notes.txt'',
                       ''adding notes.txt would remove template attribute, continue''],
           reads := [''/home/u/notes.txt'']\<rparr>\<rparr>)"
proof -
  let ?w1 = "exampleWorld (exampleAnswers [''no''])"
  let ?w2 = "exampleWorld (exampleAnswers [''yes'', ''no''])"
  let ?c1 = "exampleConfig\<lparr>prompts := [''add /home/u/.local/share/chezmoi/notes.txt''],
                          reads := [''/home/u/notes.txt'']\<rparr>"
  let ?d1 = "exampleConfig
               \<lparr>prompts := [''adding notes.txt would remove template attribute, continue'']\<rparr>"
  let ?c2 = "exampleConfig
          \<lparr>prompts := [''add /home/u/.local/share/chezmoi/notes.txt'',
                       ''adding notes.txt would remove template attribute, continue''],
           reads := [''/home/u/notes.txt'']\<rparr>"
  have pre: "defaultPreAddFunc ?w1 ''notes.txt'' \<lparr>Mode = 0x1A4\<rparr> exampleConfig
               = (Returned (Some SkipDir), ?c1)"
    by (simp add: ex_defs exampleAnswers_def hook_defs mode_defs Let_def)
  have pre_ans: "answered ?w1 exampleConfig ?c1 ''no''"
    by (simp add: ex_defs exampleAnswers_def answered_def)
  have rep: "defaultReplaceFunc ?w1 ''notes.txt'' (SourceStateFile exampleAttr)
               (SourceStateFile (exampleAttr\<lparr>Template := True\<rparr>)) exampleConfig
               = (Returned (Some SkipDir), ?d1)"
    by (simp add: ex_defs exampleAnswers_def hook_defs)
  have one: "captureOne ?w2 (addOptions ?w2 exampleConfig ''/home/u/state'')
               (hd exampleObservations) exampleState
               = (Returned None, exampleState\<lparr>cfg := ?c2\<rparr>)"
    by (simp add: ex_defs exampleState_def exampleAnswers_def hook_defs mode_defs run_defs Let_def)
  have one_ans: "answered ?w2 (cfg exampleState) (cfg (exampleState\<lparr>cfg := ?c2\<rparr>)) ''no''"
    by (simp add: ex_defs exampleState_def exampleAnswers_def answered_def)
  have cfgs: "cfg exampleState = exampleConfig" "cfg (exampleState\<lparr>cfg := ?c2\<rparr>) = ?c2"
    by (simp_all add: exampleState_def)
  note b = no_skips_entry
    [where w = ?w2 and p = "''notes.txt''" and fi = "\<lparr>Mode = 0x1A4\<rparr>" and c = exampleConfig
       and r = "Returned None" and c' = exampleConfig
       and q = "''notes.txt''" and new = "SourceStateFile exampleAttr"
       and old = "SourceStateFile exampleAttr" and d = exampleConfig
       and s = "Returned None" and d' = exampleConfig
       and ?c0.0 = exampleConfig and psf = "''/home/u/state''"
       and obs = "hd exampleObservations" and st = exampleState
       and t = "Returned None" and st' = "exampleState\<lparr>cfg := ?c2\<rparr>"
       and rest = "tl exampleObservations"]
  have cap: "Capture ?w2 (addOptions ?w2 exampleConfig ''/home/u/state'')
               (hd exampleObservations # tl exampleObservations) exampleState
             = Capture ?w2 (addOptions ?w2 exampleConfig ''/home/u/state'')
               (tl exampleObservations) (exampleState\<lparr>cfg := ?c2\<rparr>)"
    using b one one_ans by blast
  have ans: "answered ?w2 exampleConfig ?c2 ''no''"
    using one_ans by (simp only: cfgs)
  show ?thesis
    using pre rep one ans cap by simp
qed

text \<open>
  C1: for a regular file that is scanned under severity "error" (\<^verbatim>\<open>Encrypt\<close> not set,
  content read, detector built) and whose content yields at least one finding, when
  \<^verbatim>\<open>force\<close> is not set the default pre-add hook returns the policy violation
  \<^verbatim>\<open>ExitCodeError(1)\<close>, a failure with exit status 1, without prompting; a capture that
  calls the hook for this file stops there with that error, its source state and its
  log of written entries being those it had before the file.
\<close>

theorem secret_finding_aborts_capture:
  assumes "Secrets (Add c) = severityError" and "Type (Mode fi) = 0" and "\<not> Encrypt (Add c)"
    and "\<not> force c"
    and "ReadFile w (Join w (DestDirAbsPath c) p) = Inr content"
    and "getGitleaksDetector w = Inr det" and "det content \<noteq> []"
  shows "fst (defaultPreAddFunc w p fi c) = Returned (Some (ExitCodeError 1))
     \<and> exitStatus (fst (defaultPreAddFunc w p fi c)) = 1
     \<and> prompts (snd (defaultPreAddFunc w p fi c)) = prompts c
     \<and> (\<forall>opts obs st rest.
          PreAddFunc opts = defaultPreAddFunc w \<and> cfg st = c \<and> obsRelPath obs = p
          \<and> obsMode obs = Mode fi \<and> obsEntryType obs = File
          \<and> \<not> isProtected (ProtectedAbsPaths opts) (obsAbsPath obs)
          \<and> included (optFilter opts) File \<longrightarrow>
          Capture w opts (obs # rest) st
            = (Returned (Some (ExitCodeError 1)), st\<lparr>cfg := snd (defaultPreAddFunc w p fi c)\<rparr>))"
proof -
  note v = defaultPreAddFunc_violation [OF assms]
  have fi: "\<lparr>Mode = Mode fi\<rparr> = fi" by simp
  have v': "defaultPreAddFunc w p \<lparr>Mode = Mode fi\<rparr> c =
           (Returned (Some (ExitCodeError 1)), snd (defaultPreAddFunc w p fi c))"
    unfolding fi using v by simp
  have "Capture w opts (obs # rest) st
          = (Returned (Some (ExitCodeError 1)), st\<lparr>cfg := snd (defaultPreAddFunc w p fi c)\<rparr>)"
    if "PreAddFunc opts = defaultPreAddFunc w" and "cfg st = c" and "obsRelPath obs = p"
      and "obsMode obs = Mode fi" and "obsEntryType obs = File"
      and "\<not> isProtected (ProtectedAbsPaths opts) (obsAbsPath obs)"
      and "included (optFilter opts) File"
    for opts obs st rest
    using that v' by (simp add: captureOne_def)
  then show ?thesis using v by (simp add: report_findings_fields)
qed

theorem secret_finding_aborts_capture_witness:
  "Secrets (Add exampleConfig) = severityError \<and> Type (0x180 :: FileMode) = 0
   \<and> \<not> Encrypt (Add exampleConfig) \<and> \<not> force exampleConfig
   \<and> ReadFile (exampleWorld (exampleAnswers [])) ''/home/u/.netrc'' = Inr ''password hunter2''
   \<and> fst (defaultPreAddFunc (exampleWorld (exampleAnswers [])) ''.netrc'' \<lparr>Mode = 0x180\<rparr>
            exampleConfig) = Returned (Some (ExitCodeError 1))
   \<and> snd (defaultPreAddFunc (exampleWorld (exampleAnswers [])) ''.netrc'' \<lparr>Mode = 0x180\<rparr>
            exampleConfig)
       = exampleConfig\<lparr>stderr := [''/home/u/.netrc:1: password'' @ [CHR 0x0A]],
                       reads := [''/home/u/.netrc'']\<rparr>
   \<and> Capture (exampleWorld (exampleAnswers []))
        (addOptions (exampleWorld (exampleAnswers [])) exampleConfig ''/home/u/state'')
        (rev exampleObservations) exampleState
     = (Returned (Some (ExitCodeError 1)),
        exampleState\<lparr>cfg := exampleConfig\<lparr>stderr := [''/home/u/.netrc:1: password'' @ [CHR 0x0A]],
                       reads := [''/home/u/.netrc'']\<rparr>\<rparr>)"
proof -
  let ?w = "exampleWorld (exampleAnswers [])"
  let ?det = "\<lambda>content. if content = ''password hunter2''
                        then [\<lparr>StartLine = 0, Description = ''password''\<rparr>] else []"
  let ?c' = "exampleConfig\<lparr>stderr := [''/home/u/.netrc:1: password'' @ [CHR 0x0A]],
                       reads := [''/home/u/.netrc'']\<rparr>"
  let ?obs = "\<lparr>obsAbsPath = ''/home/u/.netrc'', obsRelPath = ''.netrc'', obsEntryType = File,
       obsMode = 0x180\<rparr>"
  have h1: "Secrets (Add exampleConfig) = severityError" by (simp add: exampleConfig_def)
  have h2: "Type (Mode \<lparr>Mode = 0x180\<rparr>) = 0" by (simp add: mode_defs)
  have h3: "\<not> Encrypt (Add exampleConfig)" by (simp add: exampleConfig_def)
  have h4: "\<not> force exampleConfig" by (simp add: exampleConfig_def)
  have h5: "ReadFile ?w (Join ?w (DestDirAbsPath exampleConfig) ''.netrc'') = Inr ''password hunter2''"
    by (simp add: ex_defs)
  have h6: "getGitleaksDetector ?w = Inr ?det" by (simp add: ex_defs)
  have h7: "?det ''password hunter2'' \<noteq> []" by simp
  note a = secret_finding_aborts_capture [OF h1 h2 h3 h4 h5 h6 h7]
  have s: "snd (defaultPreAddFunc ?w ''.netrc'' \<lparr>Mode = 0x180\<rparr> exampleConfig) = ?c'"
    by (simp add: ex_defs exampleAnswers_def hook_defs mode_defs Let_def)
  have o: "rev exampleObservations = ?obs # [hd exampleObservations]"
    by (simp add: exampleObservations_def)
  have g: "PreAddFunc (addOptions ?w exampleConfig ''/home/u/state'') = defaultPreAddFunc ?w
      \<and> cfg exampleState = exampleConfig \<and> obsRelPath ?obs = ''.netrc''
      \<and> obsMode ?obs = Mode \<lparr>Mode = 0x180\<rparr> \<and> obsEntryType ?obs = File
      \<and> \<not> isProtected (ProtectedAbsPaths (addOptions ?w exampleConfig ''/home/u/state''))
            (obsAbsPath ?obs)
      \<and> included (optFilter (addOptions ?w exampleConfig ''/home/u/state'')) File"
    by (simp add: addOptions_def exampleState_def exampleConfig_def isProtected_def included_def)
  have cap: "Capture ?w (addOptions ?w exampleConfig ''/home/u/state'') (rev exampleObservations)
               exampleState
             = (Returned (Some (ExitCodeError 1)), exampleState\<lparr>cfg := ?c'\<rparr>)"
    unfolding o using a g s by metis
  have r: "ReadFile ?w ''/home/u/.netrc'' = Inr ''password hunter2''" by (simp add: ex_defs)
  show ?thesis using h1 h2 h3 h4 r a s cap by simp
qed

end
